theory Spec2Isabelle
  imports Complex_Main
begin


section \<open>The animation component of kframe\<close>

text \<open>
  The development embeds \<^verbatim>\<open>src/components/animation/index.js\<close>: a component of the
  A-Frame scene framework that drives an anime.js interpolation object from the host's
  per-frame tick. The component is JavaScript, so the embedding starts with the part of
  the language the component relies on: dynamically typed values, truthiness, the
  conversions behind \<^verbatim>\<open>isNaN\<close>, \<^verbatim>\<open>parseFloat\<close> and \<^verbatim>\<open>*\<close>, and property access that
  throws on \<^verbatim>\<open>undefined\<close> and \<^verbatim>\<open>null\<close>.
\<close>

subsection \<open>JavaScript values\<close>

text \<open>
  Numbers are IEEE doubles in the program. The model keeps the three special values
  apart and idealises every finite double as a real: rounding and overflow of finite
  arithmetic are not modelled, and there is no negative zero.
\<close>

datatype jsnum = NaN | PosInf | NegInf | Fin real

text \<open>
  A value is a primitive or a plain object, that is, an object with the default
  \<^verbatim>\<open>valueOf\<close> and \<^verbatim>\<open>toString\<close>, given by its own enumerable properties. The first
  entry of a key wins on lookup. The members that a value inherits from its prototype
  (\<^verbatim>\<open>constructor\<close>, \<^verbatim>\<open>toString\<close>, \<^verbatim>\<open>hasOwnProperty\<close> and the like, all of them functions)
  are not part of it: reading a property of a value under such a name is outside the
  model.

  A string is a list of 8-bit characters, read as the code units 0 to 255.
\<close>

datatype jsval =
    VUndefined
  | VNull
  | VBool bool
  | VNum jsnum
  | VStr string
  | VObj "(string \<times> jsval) list"

datatype error = TypeError

fun truthy :: "jsval \<Rightarrow> bool" where
  "truthy VUndefined = False"
| "truthy VNull = False"
| "truthy (VBool b) = b"
| "truthy (VNum n) = (n \<noteq> NaN \<and> n \<noteq> Fin 0)"
| "truthy (VStr s) = (s \<noteq> [])"
| "truthy (VObj fs) = True"

text \<open>\<^verbatim>\<open>a || b\<close>\<close>

definition js_or :: "jsval \<Rightarrow> jsval \<Rightarrow> jsval" where
  "js_or a b = (if truthy a then a else b)"

subsection \<open>Strings as numbers\<close>

text \<open>
  \<^verbatim>\<open>parseFloat\<close> reads the longest prefix of the string, after leading white space, that
  is a signed decimal literal; \<^verbatim>\<open>Number\<close> (behind \<^verbatim>\<open>isNaN\<close>) wants the whole trimmed
  string to be a numeric literal and reads the empty string as 0. White space is what
  the language skips as white space or line terminator among the code units 0 to 255:
  tab, line feed, vertical tab, form feed, carriage return, space and the no-break space
  \<^verbatim>\<open>U+00A0\<close>.
\<close>

definition isWhite :: "char \<Rightarrow> bool" where
  "isWhite c =
     (c \<in> set [CHR '' '', CHR 0x09, CHR 0x0A, CHR 0x0B, CHR 0x0C, CHR 0x0D, CHR 0xA0])"

definition isDigit :: "char \<Rightarrow> bool" where
  "isDigit c = (48 \<le> (of_char c :: nat) \<and> (of_char c :: nat) \<le> 57)"

definition digitVal :: "char \<Rightarrow> nat" where
  "digitVal c = (of_char c :: nat) - 48"

definition decimalValue :: "string \<Rightarrow> nat" where
  "decimalValue ds = foldl (\<lambda>a c. 10 * a + digitVal c) 0 ds"

definition scale10 :: "real \<Rightarrow> int \<Rightarrow> real" where
  "scale10 m e = (if 0 \<le> e then m * 10 ^ nat e else m / 10 ^ nat (- e))"

text \<open>An exponent part \<^verbatim>\<open>e\<close>, optional sign, at least one digit; \<open>None\<close> when there is none.\<close>

definition exponentPart :: "string \<Rightarrow> (int \<times> string) option" where
  "exponentPart s =
     (case s of
        [] \<Rightarrow> None
      | c # r \<Rightarrow>
          if c = CHR ''e'' \<or> c = CHR ''E'' then
            (let (sg, r1) =
                   (case r of
                      [] \<Rightarrow> (1, r)
                    | d # r' \<Rightarrow>
                        if d = CHR ''-'' then (- 1, r')
                        else if d = CHR ''+'' then (1, r') else (1, r));
                 ds = takeWhile isDigit r1
             in if ds = [] then None
                else Some (sg * int (decimalValue ds), dropWhile isDigit r1))
          else None)"

text \<open>
  The longest prefix that is an unsigned decimal literal (\<^verbatim>\<open>Infinity\<close>, \<^verbatim>\<open>12\<close>, \<^verbatim>\<open>12.\<close>,
  \<^verbatim>\<open>12.5\<close>, \<^verbatim>\<open>.5\<close>, each with an optional exponent), with its value and the rest of the
  string.
\<close>

definition strUnsignedDecimal :: "string \<Rightarrow> (jsnum \<times> string) option" where
  "strUnsignedDecimal s =
     (if take 8 s = ''Infinity'' then Some (PosInf, drop 8 s)
      else
        (let ip = takeWhile isDigit s;
             r1 = dropWhile isDigit s;
             dot = (r1 \<noteq> [] \<and> hd r1 = CHR ''.'');
             fp = (if dot then takeWhile isDigit (tl r1) else []);
             r2 = (if dot then dropWhile isDigit (tl r1) else r1)
         in if ip = [] \<and> fp = [] then None
            else
              (let m = real (decimalValue (ip @ fp)) / 10 ^ length fp
               in case exponentPart r2 of
                    None \<Rightarrow> Some (Fin m, r2)
                  | Some (e, r3) \<Rightarrow> Some (Fin (scale10 m e), r3))))"

fun js_neg :: "jsnum \<Rightarrow> jsnum" where
  "js_neg NaN = NaN"
| "js_neg PosInf = NegInf"
| "js_neg NegInf = PosInf"
| "js_neg (Fin r) = Fin (- r)"

definition strDecimal :: "string \<Rightarrow> (jsnum \<times> string) option" where
  "strDecimal s =
     (case s of
        [] \<Rightarrow> None
      | c # r \<Rightarrow>
          if c = CHR ''-'' then map_option (\<lambda>(n, t). (js_neg n, t)) (strUnsignedDecimal r)
          else if c = CHR ''+'' then strUnsignedDecimal r
          else strUnsignedDecimal s)"

definition parseFloat_str :: "string \<Rightarrow> jsnum" where
  "parseFloat_str s =
     (case strDecimal (dropWhile isWhite s) of None \<Rightarrow> NaN | Some (n, r) \<Rightarrow> n)"

text \<open>Hexadecimal, octal and binary integer literals, which only \<^verbatim>\<open>Number\<close> accepts.\<close>

definition radixDigit :: "char \<Rightarrow> nat" where
  "radixDigit c =
     (let k = (of_char c :: nat)
      in if 48 \<le> k \<and> k \<le> 57 then k - 48
         else if 97 \<le> k \<and> k \<le> 102 then k - 87
         else if 65 \<le> k \<and> k \<le> 70 then k - 55
         else 16)"

definition radixOf :: "char \<Rightarrow> nat" where
  "radixOf c =
     (if c = CHR ''x'' \<or> c = CHR ''X'' then 16
      else if c = CHR ''o'' \<or> c = CHR ''O'' then 8
      else if c = CHR ''b'' \<or> c = CHR ''B'' then 2
      else 0)"

definition nonDecimal :: "string \<Rightarrow> jsnum option" where
  "nonDecimal t =
     (case t of
        z # x # ds \<Rightarrow>
          if z = CHR ''0'' \<and> radixOf x \<noteq> 0 \<and> ds \<noteq> [] \<and> list_all (\<lambda>c. radixDigit c < radixOf x) ds
          then Some (Fin (real (foldl (\<lambda>a c. radixOf x * a + radixDigit c) 0 ds)))
          else None
      | _ \<Rightarrow> None)"

definition trim :: "string \<Rightarrow> string" where
  "trim s = rev (dropWhile isWhite (rev (dropWhile isWhite s)))"

definition StringToNumber :: "string \<Rightarrow> jsnum" where
  "StringToNumber s =
     (let t = trim s
      in if t = [] then Fin 0
         else
           (case nonDecimal t of
              Some n \<Rightarrow> n
            | None \<Rightarrow>
                (case strDecimal t of
                   Some (n, []) \<Rightarrow> n
                 | _ \<Rightarrow> NaN)))"

fun ToNumber :: "jsval \<Rightarrow> jsnum" where
  "ToNumber VUndefined = NaN"
| "ToNumber VNull = Fin 0"
| "ToNumber (VBool b) = Fin (if b then 1 else 0)"
| "ToNumber (VNum n) = n"
| "ToNumber (VStr s) = StringToNumber s"
| "ToNumber (VObj fs) = NaN"

text \<open>The global \<^verbatim>\<open>isNaN(v)\<close>: it converts its argument to a number first.\<close>

definition isNaN :: "jsval \<Rightarrow> bool" where
  "isNaN v = (ToNumber v = NaN)"

text \<open>
  \<^verbatim>\<open>parseFloat(v)\<close> parses the string form of its argument. The string form of a number
  parses back to the number; those of \<^verbatim>\<open>undefined\<close>, \<^verbatim>\<open>null\<close>, a boolean and a plain
  object (\<^verbatim>\<open>[object Object]\<close>) start with no digit.
\<close>

fun parseFloat :: "jsval \<Rightarrow> jsnum" where
  "parseFloat (VNum n) = n"
| "parseFloat (VStr s) = parseFloat_str s"
| "parseFloat VUndefined = parseFloat_str ''undefined''"
| "parseFloat VNull = parseFloat_str ''null''"
| "parseFloat (VBool b) = parseFloat_str (if b then ''true'' else ''false'')"
| "parseFloat (VObj fs) = parseFloat_str ''[object Object]''"

text \<open>
  \<^verbatim>\<open>v.toString()\<close> for a value that has the method. The decimal form of a number is the
  runtime's (\<open>nts\<close>); nothing is assumed about it.
\<close>

fun toString :: "(jsnum \<Rightarrow> string) \<Rightarrow> jsval \<Rightarrow> string" where
  "toString nts (VStr s) = s"
| "toString nts (VNum n) = nts n"
| "toString nts (VBool b) = (if b then ''true'' else ''false'')"
| "toString nts (VObj fs) = ''[object Object]''"
| "toString nts VUndefined = ''undefined''"
| "toString nts VNull = ''null''"

text \<open>Multiplication of numbers, and \<^verbatim>\<open>a >= b\<close> on operands that are not both strings.\<close>

fun jsign :: "jsnum \<Rightarrow> real" where
  "jsign NaN = 0"
| "jsign PosInf = 1"
| "jsign NegInf = - 1"
| "jsign (Fin r) = sgn r"

definition js_mul :: "jsnum \<Rightarrow> jsnum \<Rightarrow> jsnum" where
  "js_mul a b =
     (case (a, b) of
        (Fin x, Fin y) \<Rightarrow> Fin (x * y)
      | _ \<Rightarrow>
          if a = NaN \<or> b = NaN \<or> jsign a * jsign b = 0 then NaN
          else if 0 < jsign a * jsign b then PosInf else NegInf)"

fun num_ge :: "jsnum \<Rightarrow> jsnum \<Rightarrow> bool" where
  "num_ge (Fin x) (Fin y) = (y \<le> x)"
| "num_ge NaN b = False"
| "num_ge a NaN = False"
| "num_ge PosInf b = True"
| "num_ge a NegInf = True"
| "num_ge a b = False"

definition js_ge :: "jsval \<Rightarrow> jsnum \<Rightarrow> bool" where
  "js_ge v n = num_ge (ToNumber v) n"

text \<open>
  \<^verbatim>\<open>a === b\<close>: \<^verbatim>\<open>NaN\<close> differs from itself, and objects are compared by identity, which
  the model does not have: two objects count as different.
\<close>

fun strict_eq :: "jsval \<Rightarrow> jsval \<Rightarrow> bool" where
  "strict_eq (VNum a) (VNum b) = (a = b \<and> a \<noteq> NaN)"
| "strict_eq (VObj f) b = False"
| "strict_eq a (VObj g) = False"
| "strict_eq a b = (a = b)"

text \<open>
  \<^verbatim>\<open>v[k]\<close> and the assignment \<^verbatim>\<open>v[k] = x\<close>. The own properties of a string are its
  \<^verbatim>\<open>length\<close> and its characters under their indices in decimal; a number and a boolean
  have none. A primitive ignores the assignment.
\<close>

fun digits10 :: "nat \<Rightarrow> string" where
  "digits10 n = (if n < 10 then [char_of (48 + n)] else digits10 (n div 10) @ [char_of (48 + n mod 10)])"

definition stringMember :: "string \<Rightarrow> string \<Rightarrow> jsval" where
  "stringMember s k =
     (if k = ''length'' then VNum (Fin (real (length s)))
      else (case find (\<lambda>i. digits10 i = k) [0..<length s] of
              None \<Rightarrow> VUndefined
            | Some i \<Rightarrow> VStr [s ! i]))"

fun getMember :: "jsval \<Rightarrow> string \<Rightarrow> error + jsval" where
  "getMember VUndefined k = Inl TypeError"
| "getMember VNull k = Inl TypeError"
| "getMember (VObj fs) k = Inr (case map_of fs k of None \<Rightarrow> VUndefined | Some v \<Rightarrow> v)"
| "getMember (VStr s) k = Inr (stringMember s k)"
| "getMember v k = Inr VUndefined"

fun setField :: "(string \<times> jsval) list \<Rightarrow> string \<Rightarrow> jsval \<Rightarrow> (string \<times> jsval) list" where
  "setField [] k x = [(k, x)]"
| "setField ((k', v) # fs) k x = (if k' = k then (k, x) # fs else (k', v) # setField fs k x)"

fun setMember :: "jsval \<Rightarrow> string \<Rightarrow> jsval \<Rightarrow> error + jsval" where
  "setMember VUndefined k x = Inl TypeError"
| "setMember VNull k x = Inl TypeError"
| "setMember (VObj fs) k x = Inr (VObj (setField fs k x))"
| "setMember v k x = Inr v"

subsection \<open>Errors and sequencing\<close>

text \<open>
  A method that throws leaves the mutations it made before the throw: an outcome carries
  the state in both cases. \<open>andThen\<close> is \<^verbatim>\<open>;\<close> and \<open>bindE\<close> the same for an expression
  that yields a value or throws.
\<close>

datatype 'a outcome = Done 'a | Thrown error 'a

definition andThen :: "'a outcome \<Rightarrow> ('a \<Rightarrow> 'a outcome) \<Rightarrow> 'a outcome" where
  "andThen r f = (case r of Done s \<Rightarrow> f s | Thrown e s \<Rightarrow> Thrown e s)"

definition bindE :: "error + 'a \<Rightarrow> ('a \<Rightarrow> error + 'b) \<Rightarrow> error + 'b" where
  "bindE r f = (case r of Inl e \<Rightarrow> Inl e | Inr x \<Rightarrow> f x)"

fun state_of :: "'a outcome \<Rightarrow> 'a" where
  "state_of (Done s) = s"
| "state_of (Thrown e s) = s"

fun threw :: "'a outcome \<Rightarrow> bool" where
  "threw (Done s) = False"
| "threw (Thrown e s) = True"

subsection \<open>The data model\<close>

text \<open>
  The component's \<^verbatim>\<open>schema\<close>: the configuration the host parses into \<^verbatim>\<open>this.data\<close>.
  The fields carry the prefix \<open>d_\<close> (\<^verbatim>\<open>from\<close> and \<^verbatim>\<open>type\<close> are not free as names here).
\<close>

record animation_data =
  d_autoplay :: bool
  d_delay :: jsnum
  d_dir :: string
  d_dur :: jsnum
  d_easing :: string
  d_elasticity :: jsnum
  d_from :: string
  d_loop :: jsval
  d_property :: string
  d_startEvents :: "string list"
  d_pauseEvents :: "string list"
  d_resumeEvents :: "string list"
  d_to :: string
  d_type :: string
  d_isRawProperty :: bool

text \<open>
  The \<^verbatim>\<open>update\<close> callbacks that the three \<^verbatim>\<open>updateConfigFor...\<close> methods install are
  closures over \<^verbatim>\<open>data\<close> and a mutable \<^verbatim>\<open>lastValue\<close>: one constructor per closure, with
  what it captured. The vector route has two, one that writes into
  \<^verbatim>\<open>el.object3D\<close> and one that goes through \<^verbatim>\<open>setComponentProperty\<close>.
\<close>

datatype updater =
    UpdRawColor animation_data jsval jsval jsval
  | UpdDefault animation_data jsval bool
  | UpdObject3D animation_data jsval jsval jsval
  | UpdVector animation_data jsval jsval jsval

text \<open>
  \<^verbatim>\<open>this.config\<close> is a JavaScript object that the methods fill key by key. Under
  \<^verbatim>\<open>targets\<close> it holds \<^verbatim>\<open>this.targets\<close> or \<^verbatim>\<open>this.targetsArray\<close> itself, not a copy: the
  model stores which of the two.
\<close>

datatype cval = CVal jsval | CTargets | CTargetsArray | CUpdate updater | CComplete

type_synonym config = "string \<rightharpoonup> cval"

text \<open>
  The interpolation object \<^verbatim>\<open>anime(config)\<close>: the engine copies the parameters when it
  builds the object; the model keeps them together with the calls made on the object
  since.
\<close>

datatype call = Seek real | Tick real

record anime =
  a_params :: config
  a_calls :: "call list"

definition new_anime :: "config \<Rightarrow> anime" where
  "new_anime c = \<lparr>a_params = c, a_calls = []\<rparr>"

text \<open>
  The state of one component instance (\<^verbatim>\<open>this\<close>). The host sets \<^verbatim>\<open>attrName\<close>, the
  key of the instance in \<^verbatim>\<open>el.components\<close>, and \<^verbatim>\<open>data\<close>. \<^verbatim>\<open>paused\<close> and \<^verbatim>\<open>pausedWasPlaying\<close> do
  not exist before the first \<^verbatim>\<open>pause\<close>; an absent flag reads as false.
\<close>

record animation_component =
  attrName :: string
  data :: animation_data
  eventDetail :: string
  time :: real
  animation :: "anime option"
  animationIsPlaying :: bool
  paused :: bool
  pausedWasPlaying :: bool
  fromColor :: "(string \<times> jsval) list"
  toColor :: "(string \<times> jsval) list"
  targets :: "(string \<times> jsval) list"
  targetsArray :: "jsval list"
  config :: config

text \<open>
  The owning entity (\<^verbatim>\<open>this.el\<close>), as far as the component touches it:
  \<^item> \<open>components\<close>: \<^verbatim>\<open>el.components\<close>, by attribute name; a component that is not an
    animation is given by its schema;
  \<^item> \<open>listeners\<close>: the registrations \<^verbatim>\<open>el.addEventListener(event, handler)\<close> of the
    components' bound handlers (registering twice has no effect, as in the DOM);
  \<^item> \<open>emitted\<close>: the notifications handed to \<^verbatim>\<open>el.emit\<close>, oldest first, with the name in
    their detail. Delivering a notification to listeners is the host's part and not in
    the methods below: a handler of an animation that listens to \<^verbatim>\<open>animationbegin\<close> or
    \<^verbatim>\<open>animationcomplete\<close> is a further handler call (\<open>deliver\<close>). The state a method
    returns is the state in which its last notification is handed over;
  \<^item> \<open>timers\<close>: the armed \<^verbatim>\<open>setTimeout(this.beginAnimation, delay)\<close>;
  \<^item> \<open>props\<close>: what \<^verbatim>\<open>getComponentProperty(el, path)\<close> returns or that it throws, while the
    method at hand runs (every method reads before it writes); what the host makes of the
    writes afterwards is its own part;
  \<^item> \<open>raw\<close>: the entity as a plain object graph, for the raw paths;
  \<^item> \<open>writes\<close>: the calls of \<^verbatim>\<open>setComponentProperty\<close> and \<^verbatim>\<open>el.object3D[p].set\<close>.
\<close>

datatype handler = OnStartEvent | PauseAnimation | ResumeAnimation

datatype scene_write =
    SetComponentProperty string jsval
  | Object3DSet string jsval jsval jsval

datatype component =
    Animation animation_component
  | Other "(string \<times> jsval) list"

record entity =
  components :: "string \<rightharpoonup> component"
  listeners :: "(string \<times> string \<times> handler) set"
  emitted :: "(string \<times> string) list"
  timers :: "(string \<times> jsnum) list"
  props :: "string \<Rightarrow> error + jsval"
  raw :: jsval
  writes :: "scene_write list"

type_synonym state = "animation_component \<times> entity"

text \<open>
  What the engine hands to an \<^verbatim>\<open>update\<close> callback is the object \<^verbatim>\<open>anim\<close>; the callbacks
  read \<^verbatim>\<open>anim.animatables[0].target\<close> or \<^verbatim>\<open>anim.animations[0].target\<close>.
\<close>

datatype callback = CbUpdate jsval jsval | CbComplete

text \<open>
  The collaborators outside the repository, as parameters:
  \<^item> \<open>numberToString\<close>: \<^verbatim>\<open>Number.prototype.toString\<close>;
  \<^item> \<open>coordinates_parse\<close>: \<^verbatim>\<open>AFRAME.utils.coordinates.parse\<close> on a string, the fields of
    the object it builds;
  \<^item> \<open>color_rgb\<close>: the \<^verbatim>\<open>r\<close>, \<^verbatim>\<open>g\<close>, \<^verbatim>\<open>b\<close> of a \<^verbatim>\<open>THREE.Color\<close> after \<^verbatim>\<open>set(v)\<close>;
  \<^item> \<open>registered\<close>: the schema of \<^verbatim>\<open>AFRAME.components[name]\<close>;
  \<^item> \<open>anime_callbacks\<close>: the callbacks the engine invokes, in order, during the last
    call recorded in the component's interpolation object;
  \<^item> \<open>anime_targets\<close>: the engine interpolates its targets in place. The targets are
    objects of the instance: \<^verbatim>\<open>this.targets\<close> on the default route, \<^verbatim>\<open>this.fromColor\<close> or the
    start vector on the other two, both held in \<^verbatim>\<open>this.targetsArray\<close>. The function gives
    the contents of \<^verbatim>\<open>this.targets\<close>, \<^verbatim>\<open>this.targetsArray\<close> and \<^verbatim>\<open>this.fromColor\<close> as the
    engine leaves them when it has built the interpolation object or served the last
    call recorded in it.
\<close>

record host =
  numberToString :: "jsnum \<Rightarrow> string"
  coordinates_parse :: "string \<Rightarrow> (string \<times> jsval) list"
  color_rgb :: "jsval \<Rightarrow> jsval \<times> jsval \<times> jsval"
  registered :: "string \<Rightarrow> (string \<times> jsval) list option"
  anime_callbacks :: "animation_component \<Rightarrow> callback list"
  anime_targets ::
    "animation_component \<Rightarrow> (string \<times> jsval) list \<times> jsval list \<times> (string \<times> jsval) list"

subsection \<open>Helper functions of the module\<close>

abbreviation TYPE_COLOR :: string where "TYPE_COLOR \<equiv> ''color''"
abbreviation PROP_POSITION :: string where "PROP_POSITION \<equiv> ''position''"
abbreviation PROP_ROTATION :: string where "PROP_ROTATION \<equiv> ''rotation''"
abbreviation PROP_SCALE :: string where "PROP_SCALE \<equiv> ''scale''"
abbreviation STRING_COMPONENTS :: string where "STRING_COMPONENTS \<equiv> ''components''"
abbreviation STRING_OBJECT3D :: string where "STRING_OBJECT3D \<equiv> ''object3D''"

text \<open>\<^verbatim>\<open>path.split('.')\<close>; the result is never empty.\<close>

fun split_dot :: "string \<Rightarrow> string list" where
  "split_dot [] = [[]]"
| "split_dot (c # cs) =
     (if c = CHR ''.'' then [] # split_dot cs
      else (case split_dot cs of [] \<Rightarrow> [[c]] | x # xs \<Rightarrow> (c # x) # xs))"

text \<open>
  \<^verbatim>\<open>splitDot\<close> memoises the split in \<^verbatim>\<open>splitCache\<close>; the table does not change the result
  for a path that is not the name of a member of \<^verbatim>\<open>Object.prototype\<close>, which the \<^verbatim>\<open>in\<close>
  test of the source would find in the empty table. The component calls \<^verbatim>\<open>splitDot\<close> on
  \<^verbatim>\<open>data.property\<close> only, and only when \<^verbatim>\<open>getPropertyType\<close> has returned for it, which it
  does not for such a name (see there).
\<close>

definition splitDot :: "string \<Rightarrow> string list" where
  "splitDot path = split_dot path"

definition startsWith :: "string \<Rightarrow> string \<Rightarrow> bool" where
  "startsWith s p = (take (length p) s = p)"

definition isRawProperty :: "animation_data \<Rightarrow> bool" where
  "isRawProperty d =
     (d_isRawProperty d \<or> startsWith (d_property d) STRING_COMPONENTS \<or>
      startsWith (d_property d) STRING_OBJECT3D)"

fun walkPath :: "jsval \<Rightarrow> string list \<Rightarrow> error + jsval" where
  "walkPath v [] = Inr v"
| "walkPath v (k # ks) = bindE (getMember v k) (\<lambda>c. walkPath c ks)"

definition getRawProperty :: "entity \<Rightarrow> string \<Rightarrow> error + jsval" where
  "getRawProperty el path = walkPath (raw el) (splitDot path)"

text \<open>
  \<^verbatim>\<open>setRawProperty\<close> walks to the container of the last segment and assigns there. In the
  model the assignment rebuilds the graph along the walked path.
\<close>

fun updatePath :: "jsval \<Rightarrow> string list \<Rightarrow> (jsval \<Rightarrow> error + jsval) \<Rightarrow> error + jsval" where
  "updatePath v [] f = f v"
| "updatePath v (k # ks) f =
     bindE (getMember v k) (\<lambda>c. bindE (updatePath c ks f) (\<lambda>c'. setMember v k c'))"

definition hasField :: "(string \<times> jsval) list \<Rightarrow> string \<Rightarrow> bool" where
  "hasField fs k = (map_of fs k \<noteq> None)"

definition fieldOf :: "(string \<times> jsval) list \<Rightarrow> string \<Rightarrow> jsval" where
  "fieldOf fs k = (case map_of fs k of None \<Rightarrow> VUndefined | Some v \<Rightarrow> v)"

definition setRawProperty :: "entity \<Rightarrow> string \<Rightarrow> jsval \<Rightarrow> string \<Rightarrow> error + entity" where
  "setRawProperty el path val ty =
     (let split = splitDot path;
          propertyName = last split
      in bindE
           (updatePath (raw el) (butlast split)
              (\<lambda>targetValue.
                 if ty = TYPE_COLOR then
                   bindE (getMember targetValue propertyName)
                     (\<lambda>tv. case tv of
                        VObj fs \<Rightarrow>
                          bindE (getMember val ''r'') (\<lambda>r.
                          bindE (getMember val ''g'') (\<lambda>g.
                          bindE (getMember val ''b'') (\<lambda>b.
                            setMember targetValue propertyName
                              (VObj (if hasField fs ''r''
                                     then setField (setField (setField fs ''r'' r) ''g'' g) ''b'' b
                                     else setField (setField (setField fs ''x'' r) ''y'' g) ''z'' b)))))
                      | _ \<Rightarrow> Inl TypeError)
                 else setMember targetValue propertyName val))
           (\<lambda>r. Inr (el\<lparr>raw := r\<rparr>)))"

text \<open>
  \<^verbatim>\<open>THREE.Math.degToRad\<close> is \<^verbatim>\<open>degrees * DEG2RAD\<close> with \<^verbatim>\<open>DEG2RAD = Math.PI / 180\<close>; the
  product converts its operand to a number.
\<close>

definition DEG2RAD :: jsnum where
  "DEG2RAD = Fin (pi / 180)"

definition degToRad :: "jsval \<Rightarrow> jsnum" where
  "degToRad v = js_mul (ToNumber v) DEG2RAD"

definition toRadians :: "jsval \<Rightarrow> error + jsval" where
  "toRadians obj =
     bindE (getMember obj ''x'') (\<lambda>x. bindE (setMember obj ''x'' (VNum (degToRad x))) (\<lambda>o1.
     bindE (getMember o1 ''y'') (\<lambda>y. bindE (setMember o1 ''y'' (VNum (degToRad y))) (\<lambda>o2.
     bindE (getMember o2 ''z'') (\<lambda>z. setMember o2 ''z'' (VNum (degToRad z)))))))"

text \<open>
  The schema of the animation component itself, as the host processes it: only the
  \<^verbatim>\<open>type\<close> of a property is read here.
\<close>

definition animation_schema :: "(string \<times> jsval) list" where
  "animation_schema =
     map (\<lambda>(k, t). (k, VObj [(''type'', VStr t)]))
       [(''autoplay'', ''boolean''), (''delay'', ''number''), (''dir'', ''string''),
        (''dur'', ''number''), (''easing'', ''string''), (''elasticity'', ''number''),
        (''from'', ''string''), (''loop'', ''number''), (''property'', ''string''),
        (''startEvents'', ''array''), (''pauseEvents'', ''array''),
        (''resumeEvents'', ''array''), (''to'', ''string''), (''type'', ''string''),
        (''isRawProperty'', ''boolean'')]"

fun schema_of :: "component \<Rightarrow> (string \<times> jsval) list" where
  "schema_of (Animation c) = animation_schema"
| "schema_of (Other sch) = sch"

text \<open>\<^verbatim>\<open>v.type\<close> for a truthy \<open>v\<close>.\<close>

fun type_of :: "jsval \<Rightarrow> jsval" where
  "type_of (VObj fs) = fieldOf fs ''type''"
| "type_of v = VUndefined"

text \<open>
  \<^verbatim>\<open>el.components\<close> and \<^verbatim>\<open>AFRAME.components\<close> are plain objects: under a name that is
  not a key of \<^verbatim>\<open>el.components\<close> but the name of a member of \<^verbatim>\<open>Object.prototype\<close>, the
  lookup finds that member, which is truthy and has no \<^verbatim>\<open>schema\<close>, and the function throws
  when it reads the schema.
\<close>

definition Object_prototype :: "string list" where
  "Object_prototype =
     [''constructor'', ''__defineGetter__'', ''__defineSetter__'', ''hasOwnProperty'',
      ''__lookupGetter__'', ''__lookupSetter__'', ''isPrototypeOf'', ''propertyIsEnumerable'',
      ''toString'', ''valueOf'', ''__proto__'', ''toLocaleString'']"

definition getPropertyType :: "host \<Rightarrow> entity \<Rightarrow> string \<Rightarrow> error + jsval" where
  "getPropertyType h el property =
     (case split_dot property of
        [] \<Rightarrow> Inr VNull
      | componentName # rest \<Rightarrow>
          (let propertyName = (case rest of [] \<Rightarrow> [] | p # ps \<Rightarrow> p)
           in if components el componentName = None \<and> componentName \<in> set Object_prototype
              then Inl TypeError
              else
                (case (case components el componentName of
                         Some c \<Rightarrow> Some (schema_of c)
                       | None \<Rightarrow> registered h componentName) of
                   None \<Rightarrow> Inr VNull
                 | Some schema \<Rightarrow>
                     if propertyName \<noteq> [] \<and> \<not> truthy (fieldOf schema propertyName) then Inr VNull
                     else if propertyName \<noteq> [] then Inr (type_of (fieldOf schema propertyName))
                     else Inr (fieldOf schema ''type''))))"

text \<open>\<^verbatim>\<open>for (key in obj) { config[key] = obj[key]; }\<close>\<close>

definition assignAll :: "config \<Rightarrow> (string \<times> jsval) list \<Rightarrow> config" where
  "assignAll c fs = c ++ map_of (map (\<lambda>(k, v). (k, CVal v)) fs)"

fun ownFields :: "jsval \<Rightarrow> (string \<times> jsval) list" where
  "ownFields (VObj fs) = fs"
| "ownFields (VStr s) = map (\<lambda>i. (digits10 i, VStr [s ! i])) [0..<length s]"
| "ownFields v = []"

subsection \<open>Building the configuration\<close>

text \<open>
  The three \<^verbatim>\<open>updateConfigFor...\<close> methods read the entity and write \<^verbatim>\<open>this\<close> only. A read
  of the scene that throws leaves \<^verbatim>\<open>this\<close> as it was; the vector route can also throw
  after it has stored the targets, when it reads \<^verbatim>\<open>from.x\<close>. \<^verbatim>\<open>updateConfig\<close> asks for the type
  of the property first, whatever the route.
\<close>

definition setColorConfig :: "host \<Rightarrow> animation_component \<Rightarrow> jsval \<Rightarrow> jsval \<Rightarrow> animation_component" where
  "setColorConfig h self from0 to0 =
     (let (fr, fg, fb) = color_rgb h from0;
          (tr, tg, tb) = color_rgb h to0
      in self\<lparr>fromColor := setField (setField (setField (fromColor self) ''r'' fr) ''g'' fg) ''b'' fb,
              toColor := setField (setField (setField (toColor self) ''r'' tr) ''g'' tg) ''b'' tb\<rparr>)"

definition updateConfigForRawColor :: "host \<Rightarrow> animation_component \<Rightarrow> entity \<Rightarrow> animation_component outcome" where
  "updateConfigForRawColor h self el =
     (let d = data self
      in case (if d_from d \<noteq> [] then Inr (VStr (d_from d)) else getRawProperty el (d_property d)) of
           Inl e \<Rightarrow> Thrown e self
         | Inr from0 \<Rightarrow>
             (let self1 = setColorConfig h self from0 (VStr (d_to d));
                  from1 = fromColor self1;
                  to1 = toColor self1
              in Done (self1\<lparr>targetsArray := [VObj from1],
                        config := (assignAll ((config self1)(''targets'' \<mapsto> CTargetsArray)) to1)
                          (''update'' \<mapsto> CUpdate (UpdRawColor d (fieldOf from1 ''r'')
                             (fieldOf from1 ''g'') (fieldOf from1 ''b'')))\<rparr>)))"

text \<open>
  The start value of the default route,
  \<^verbatim>\<open>data.from || (isRawProperty(data) ? getRawProperty(el, data.property) : getComponentProperty(el, data.property))\<close>.
\<close>

definition defaultFrom :: "animation_data \<Rightarrow> entity \<Rightarrow> error + jsval" where
  "defaultFrom d el =
     (if d_from d \<noteq> [] then Inr (VStr (d_from d))
      else if isRawProperty d then getRawProperty el (d_property d)
      else props el (d_property d))"

definition updateConfigForDefault :: "host \<Rightarrow> animation_component \<Rightarrow> entity \<Rightarrow> animation_component outcome" where
  "updateConfigForDefault h self el =
     (let d = data self
      in case defaultFrom d el of
           Inl e \<Rightarrow> Thrown e self
         | Inr from0 \<Rightarrow>
             (let to0 = VStr (d_to d);
                  isNumber = (\<not> isNaN (js_or from0 to0));
                  from1 = (if isNumber then VNum (parseFloat from0)
                           else if truthy from0 then VStr (toString (numberToString h) from0)
                           else from0);
                  to1 = (if isNumber then VNum (parseFloat to0)
                         else if truthy to0 then VStr (toString (numberToString h) to0)
                         else to0);
                  isBoolean = (strict_eq to1 (VStr ''true'') \<or> strict_eq to1 (VStr ''false''));
                  from2 = (if isBoolean then VNum (Fin (if d_from d = ''true'' then 1 else 0)) else from1);
                  to2 = (if isBoolean then VNum (Fin (if d_to d = ''true'' then 1 else 0)) else to1);
                  tg = setField (targets self) ''aframeProperty'' from2
              in Done (self\<lparr>targets := tg,
                        config := (config self)
                          (''targets'' \<mapsto> CTargets,
                           ''aframeProperty'' \<mapsto> CVal to2,
                           ''update'' \<mapsto> CUpdate (UpdDefault d from2 isBoolean))\<rparr>)))"

text \<open>
  The start value of the vector route,
  \<^verbatim>\<open>data.from ? coordinates.parse(data.from) : getComponentProperty(el, data.property)\<close>.
\<close>

definition vectorFrom :: "host \<Rightarrow> animation_data \<Rightarrow> entity \<Rightarrow> error + jsval" where
  "vectorFrom h d el =
     (if d_from d \<noteq> [] then Inr (VObj (coordinates_parse h (d_from d)))
      else props el (d_property d))"

definition updateConfigForVector :: "host \<Rightarrow> animation_component \<Rightarrow> entity \<Rightarrow> animation_component outcome" where
  "updateConfigForVector h self el =
     (let d = data self
      in case bindE (vectorFrom h d el)
                (\<lambda>from0.
                   let to0 = VObj (coordinates_parse h (d_to d))
                   in if d_property d = PROP_ROTATION
                      then bindE (toRadians from0) (\<lambda>f. bindE (toRadians to0) (\<lambda>t. Inr (f, t)))
                      else Inr (from0, to0)) of
           Inl e \<Rightarrow> Thrown e self
         | Inr (from1, to1) \<Rightarrow>
             (let self1 = self\<lparr>targetsArray := [from1],
                               config := assignAll ((config self)(''targets'' \<mapsto> CTargetsArray))
                                           (ownFields to1)\<rparr>
              in case bindE (getMember from1 ''x'') (\<lambda>x. bindE (getMember from1 ''y'') (\<lambda>y.
                        bindE (getMember from1 ''z'') (\<lambda>z. Inr (x, y, z)))) of
                   Inl e \<Rightarrow> Thrown e self1
                 | Inr (x, y, z) \<Rightarrow>
                     Done (self1\<lparr>config := (config self1)
                             (''update'' \<mapsto> CUpdate
                                (if d_property d = PROP_POSITION \<or> d_property d = PROP_ROTATION \<or>
                                    d_property d = PROP_SCALE
                                 then UpdObject3D d x y z else UpdVector d x y z))\<rparr>)))"

definition updateConfig :: "host \<Rightarrow> animation_component \<Rightarrow> entity \<Rightarrow> animation_component outcome" where
  "updateConfig h self el =
     (case getPropertyType h el (d_property (data self)) of
        Inl e \<Rightarrow> Thrown e self
      | Inr propType \<Rightarrow>
          if isRawProperty (data self) \<and> d_type (data self) = TYPE_COLOR
          then updateConfigForRawColor h self el
          else if strict_eq propType (VStr ''vec2'') \<or> strict_eq propType (VStr ''vec3'') \<or>
                  strict_eq propType (VStr ''vec4'')
          then updateConfigForVector h self el
          else updateConfigForDefault h self el)"

subsection \<open>The update callbacks\<close>

text \<open>
  One call of an installed \<^verbatim>\<open>update\<close> closure, given the two targets the engine exposes:
  the closure with its new \<^verbatim>\<open>lastValue\<close>, and the entity after the write, if there is one.
\<close>

definition same3 :: "jsval \<Rightarrow> jsval \<Rightarrow> jsval \<Rightarrow> jsval \<Rightarrow> jsval \<Rightarrow> jsval \<Rightarrow> bool" where
  "same3 a b c a' b' c' = (strict_eq a a' \<and> strict_eq b b' \<and> strict_eq c c')"

fun run_update :: "updater \<Rightarrow> jsval \<Rightarrow> jsval \<Rightarrow> entity \<Rightarrow> (updater \<times> entity) outcome" where
  "run_update (UpdRawColor d lr lg lb) animatable animated el =
     (case bindE (getMember animatable ''r'') (\<lambda>r. bindE (getMember animatable ''g'') (\<lambda>g.
             bindE (getMember animatable ''b'') (\<lambda>b. Inr (r, g, b)))) of
        Inl e \<Rightarrow> Thrown e (UpdRawColor d lr lg lb, el)
      | Inr (r, g, b) \<Rightarrow>
          if same3 r g b lr lg lb then Done (UpdRawColor d lr lg lb, el)
          else (case setRawProperty el (d_property d) animatable (d_type d) of
                  Inl e \<Rightarrow> Thrown e (UpdRawColor d lr lg lb, el)
                | Inr el' \<Rightarrow> Done (UpdRawColor d lr lg lb, el')))"
| "run_update (UpdDefault d lastValue isBoolean) animatable animated el =
     (case getMember animatable ''aframeProperty'' of
        Inl e \<Rightarrow> Thrown e (UpdDefault d lastValue isBoolean, el)
      | Inr v \<Rightarrow>
          if strict_eq v lastValue then Done (UpdDefault d lastValue isBoolean, el)
          else
            (let v' = (if isBoolean then VBool (js_ge v (Fin 1)) else v)
             in if isRawProperty d
                then (case setRawProperty el (d_property d) v' (d_type d) of
                        Inl e \<Rightarrow> Thrown e (UpdDefault d v isBoolean, el)
                      | Inr el' \<Rightarrow> Done (UpdDefault d v isBoolean, el'))
                else Done (UpdDefault d v isBoolean,
                           el\<lparr>writes := writes el @ [SetComponentProperty (d_property d) v']\<rparr>)))"
| "run_update (UpdObject3D d lx ly lz) animatable animated el =
     (case bindE (getMember animatable ''x'') (\<lambda>x. bindE (getMember animatable ''y'') (\<lambda>y.
             bindE (getMember animatable ''z'') (\<lambda>z. Inr (x, y, z)))) of
        Inl e \<Rightarrow> Thrown e (UpdObject3D d lx ly lz, el)
      | Inr (x, y, z) \<Rightarrow>
          if same3 x y z lx ly lz then Done (UpdObject3D d lx ly lz, el)
          else Done (UpdObject3D d x y z,
                     el\<lparr>writes := writes el @ [Object3DSet (d_property d) x y z]\<rparr>))"
| "run_update (UpdVector d lx ly lz) animatable animated el =
     (case bindE (getMember animated ''x'') (\<lambda>x. bindE (getMember animated ''y'') (\<lambda>y.
             bindE (getMember animated ''z'') (\<lambda>z. Inr (x, y, z)))) of
        Inl e \<Rightarrow> Thrown e (UpdVector d lx ly lz, el)
      | Inr (x, y, z) \<Rightarrow>
          if same3 x y z lx ly lz then Done (UpdVector d lx ly lz, el)
          else Done (UpdVector d x y z,
                     el\<lparr>writes := writes el @ [SetComponentProperty (d_property d) animated]\<rparr>))"

subsection \<open>The methods of the component\<close>

text \<open>
  A method runs on \<^verbatim>\<open>this\<close> and \<^verbatim>\<open>this.el\<close>: a state is the pair of the two. While a
  method runs, the entry of the instance in \<open>components\<close> is not read (the scan of the
  siblings skips it, the routing reads its schema only); \<open>call\<close> below stores the
  instance back when the method is over.
\<close>

definition init :: "string \<Rightarrow> animation_data \<Rightarrow> animation_component" where
  "init name d =
     \<lparr>attrName = name, data = d, eventDetail = name, time = 0, animation = None,
      animationIsPlaying = False, paused = False, pausedWasPlaying = False,
      fromColor = [], toColor = [], targets = [], targetsArray = [],
      config = [''complete'' \<mapsto> CComplete]\<rparr>"

definition addEventListeners_fn :: "entity \<Rightarrow> string list \<Rightarrow> string \<times> handler \<Rightarrow> entity" where
  "addEventListeners_fn el eventNames handler =
     el\<lparr>listeners := listeners el \<union> (\<lambda>ev. (ev, handler)) ` set eventNames\<rparr>"

definition removeEventListeners_fn :: "entity \<Rightarrow> string list \<Rightarrow> string \<times> handler \<Rightarrow> entity" where
  "removeEventListeners_fn el eventNames handler =
     el\<lparr>listeners := listeners el - (\<lambda>ev. (ev, handler)) ` set eventNames\<rparr>"

definition addEventListeners :: "state \<Rightarrow> state" where
  "addEventListeners s =
     (let (self, el) = s;
          el1 = addEventListeners_fn el (d_startEvents (data self)) (attrName self, OnStartEvent);
          el2 = addEventListeners_fn el1 (d_pauseEvents (data self)) (attrName self, PauseAnimation);
          el3 = addEventListeners_fn el2 (d_resumeEvents (data self)) (attrName self, ResumeAnimation)
      in (self, el3))"

definition removeEventListeners :: "state \<Rightarrow> state" where
  "removeEventListeners s =
     (let (self, el) = s;
          el1 = removeEventListeners_fn el (d_startEvents (data self)) (attrName self, OnStartEvent);
          el2 = removeEventListeners_fn el1 (d_pauseEvents (data self)) (attrName self, PauseAnimation);
          el3 = removeEventListeners_fn el2 (d_resumeEvents (data self)) (attrName self, ResumeAnimation)
      in (self, el3))"

definition pauseAnimation :: "state \<Rightarrow> state" where
  "pauseAnimation s = (let (self, el) = s in (self\<lparr>animationIsPlaying := False\<rparr>, el))"

definition resumeAnimation :: "state \<Rightarrow> state" where
  "resumeAnimation s = (let (self, el) = s in (self\<lparr>animationIsPlaying := True\<rparr>, el))"

text \<open>
  The scan of \<^verbatim>\<open>stopRelatedAnimations\<close> over \<^verbatim>\<open>el.components\<close>: one component, under its
  key.
\<close>

definition stopRelated :: "animation_component \<Rightarrow> string \<Rightarrow> component \<Rightarrow> component" where
  "stopRelated self componentName c =
     (if componentName = attrName self then c
      else (case c of
              Other sch \<Rightarrow> c
            | Animation other \<Rightarrow>
                if d_property (data other) \<noteq> d_property (data self) then c
                else Animation (other\<lparr>animationIsPlaying := False\<rparr>)))"

definition stopRelatedAnimations :: "state \<Rightarrow> state" where
  "stopRelatedAnimations s =
     (let (self, el) = s
      in (self, el\<lparr>components := (\<lambda>componentName.
                      map_option (stopRelated self componentName) (components el componentName))\<rparr>))"

text \<open>
  \<^verbatim>\<open>this.el.emit(name, this.eventDetail)\<close> hands the notification to the entity. The
  handlers that are registered for it run as calls of their own (\<open>deliver\<close> below), on the
  state that the emitting method returns.
\<close>

definition emit :: "string \<Rightarrow> state \<Rightarrow> state" where
  "emit ev s = (let (self, el) = s in (self, el\<lparr>emitted := emitted el @ [(ev, eventDetail self)]\<rparr>))"

text \<open>
  The callbacks that the engine invokes during \<^verbatim>\<open>seek\<close> or \<^verbatim>\<open>tick\<close>: the \<^verbatim>\<open>update\<close>
  closure the interpolation object was built with, and \<^verbatim>\<open>config.complete\<close> of \<^verbatim>\<open>init\<close>.
  An exception in a callback ends the call.
\<close>

definition run_callback :: "callback \<Rightarrow> state \<Rightarrow> state outcome" where
  "run_callback cb s =
     (let (self, el) = s
      in case cb of
           CbComplete \<Rightarrow> Done (emit ''animationcomplete'' (self\<lparr>animationIsPlaying := False\<rparr>, el))
         | CbUpdate animatable animated \<Rightarrow>
             (case animation self of
                None \<Rightarrow> Done s
              | Some a \<Rightarrow>
                  (case a_params a ''update'' of
                     Some (CUpdate u) \<Rightarrow>
                       (case run_update u animatable animated el of
                          Done (u', el') \<Rightarrow>
                            Done (self\<lparr>animation :=
                                    Some (a\<lparr>a_params := (a_params a)(''update'' \<mapsto> CUpdate u')\<rparr>)\<rparr>, el')
                        | Thrown e (u', el') \<Rightarrow>
                            Thrown e (self\<lparr>animation :=
                                    Some (a\<lparr>a_params := (a_params a)(''update'' \<mapsto> CUpdate u')\<rparr>)\<rparr>, el'))
                   | _ \<Rightarrow> Done s)))"

fun run_callbacks :: "callback list \<Rightarrow> state \<Rightarrow> state outcome" where
  "run_callbacks [] s = Done s"
| "run_callbacks (cb # cbs) s = andThen (run_callback cb s) (run_callbacks cbs)"

text \<open>What the engine has made of its targets.\<close>

definition tween :: "host \<Rightarrow> animation_component \<Rightarrow> animation_component" where
  "tween h self =
     (let (tg, ta, fc) = anime_targets h self
      in self\<lparr>targets := tg, targetsArray := ta, fromColor := fc\<rparr>)"

text \<open>
  \<^verbatim>\<open>this.animation.seek(t)\<close> and \<^verbatim>\<open>this.animation.tick(t)\<close>: a \<^verbatim>\<open>TypeError\<close> when
  \<^verbatim>\<open>this.animation\<close> is \<^verbatim>\<open>null\<close>; otherwise the engine moves its targets and invokes its
  callbacks.
\<close>

definition anime_call :: "host \<Rightarrow> call \<Rightarrow> state \<Rightarrow> state outcome" where
  "anime_call h c s =
     (let (self, el) = s
      in case animation self of
           None \<Rightarrow> Thrown TypeError s
         | Some a \<Rightarrow>
             (let self1 = self\<lparr>animation := Some (a\<lparr>a_calls := a_calls a @ [c]\<rparr>)\<rparr>
              in run_callbacks (anime_callbacks h self1) (tween h self1, el)))"

definition beginAnimation :: "host \<Rightarrow> state \<Rightarrow> state outcome" where
  "beginAnimation h s =
     (let (self, el) = s
      in case updateConfig h self el of
           Thrown e self1 \<Rightarrow> Thrown e (self1, el)
         | Done self1 \<Rightarrow>
             andThen (anime_call h (Seek 0) (self1\<lparr>time := 0\<rparr>, el))
               (\<lambda>(self2, el2).
                  Done (emit ''animationbegin''
                         (stopRelatedAnimations (self2\<lparr>animationIsPlaying := True\<rparr>, el2)))))"

definition arm_timer :: "state \<Rightarrow> state" where
  "arm_timer s =
     (let (self, el) = s
      in (self, el\<lparr>timers := timers el @ [(attrName self, d_delay (data self))]\<rparr>))"

definition createAndStartAnimation :: "host \<Rightarrow> state \<Rightarrow> state outcome" where
  "createAndStartAnimation h s =
     (let (self, el) = s
      in case updateConfig h self el of
           Thrown e self1 \<Rightarrow> Thrown e (self1, el)
         | Done self1 \<Rightarrow>
             (let self2 = tween h (self1\<lparr>animationIsPlaying := False,
                                          animation := Some (new_anime (config self1))\<rparr>);
                  s3 = addEventListeners (removeEventListeners (self2, el))
              in if \<not> d_autoplay (data self2) \<or> d_startEvents (data self2) \<noteq> [] then Done s3
                 else if truthy (VNum (d_delay (data self2))) then Done (arm_timer s3)
                 else beginAnimation h s3))"

definition onStartEvent :: "host \<Rightarrow> state \<Rightarrow> state outcome" where
  "onStartEvent h s =
     (let (self, el) = s
      in if truthy (VNum (d_delay (data self))) then Done (arm_timer s)
         else beginAnimation h s)"

definition update :: "host \<Rightarrow> state \<Rightarrow> state outcome" where
  "update h s =
     (let (self, el) = s;
          d = data self;
          self1 = self\<lparr>animationIsPlaying := False\<rparr>
      in if d_property d = [] then Done (self1, el)
         else createAndStartAnimation h
                (self1\<lparr>config := (config self1)
                   (''autoplay'' \<mapsto> CVal (VBool False),
                    ''direction'' \<mapsto> CVal (VStr (d_dir d)),
                    ''duration'' \<mapsto> CVal (VNum (d_dur d)),
                    ''easing'' \<mapsto> CVal (VStr (d_easing d)),
                    ''elasticity'' \<mapsto> CVal (VNum (d_elasticity d)),
                    ''loop'' \<mapsto> CVal (d_loop d))\<rparr>, el))"

definition tick :: "host \<Rightarrow> real \<Rightarrow> state \<Rightarrow> state outcome" where
  "tick h dt s =
     (let (self, el) = s
      in if \<not> animationIsPlaying self then Done s
         else anime_call h (Tick (time self + dt)) (self\<lparr>time := time self + dt\<rparr>, el))"

definition remove :: "state \<Rightarrow> state" where
  "remove s = removeEventListeners (pauseAnimation s)"

definition pause :: "state \<Rightarrow> state" where
  "pause s =
     (let (self, el) = s
      in removeEventListeners
           (pauseAnimation (self\<lparr>paused := True, pausedWasPlaying := True\<rparr>, el)))"

definition play :: "state \<Rightarrow> state" where
  "play s =
     (let (self, el) = s
      in if \<not> paused self then s
         else
           (let (self1, el1) = addEventListeners (self\<lparr>paused := False\<rparr>, el)
            in if pausedWasPlaying self1
               then (let (self2, el2) = resumeAnimation (self1, el1)
                     in (self2\<lparr>pausedWasPlaying := False\<rparr>, el2))
               else (self1, el1)))"

subsection \<open>The host's calls\<close>

text \<open>
  The host calls a method on the instance stored under a name; the instance, as the
  method left it, is what \<^verbatim>\<open>el.components\<close> holds afterwards, also when the method threw.
  A name that holds no animation component has no method to call.
\<close>

definition store :: "string \<Rightarrow> state \<Rightarrow> entity" where
  "store name s = (let (self, el) = s in el\<lparr>components := (components el)(name \<mapsto> Animation self)\<rparr>)"

definition call :: "(state \<Rightarrow> state outcome) \<Rightarrow> string \<Rightarrow> entity \<Rightarrow> entity outcome" where
  "call m name el =
     (case components el name of
        Some (Animation self) \<Rightarrow>
          (case m (self, el) of
             Done s \<Rightarrow> Done (store name s)
           | Thrown e s \<Rightarrow> Thrown e (store name s))
      | _ \<Rightarrow> Done el)"

text \<open>The instance stored under a name, if it is an animation component.\<close>

definition instance_of :: "entity \<Rightarrow> string \<Rightarrow> animation_component option" where
  "instance_of el name = (case components el name of Some (Animation c) \<Rightarrow> Some c | _ \<Rightarrow> None)"

text \<open>
  Attaching a component: the host creates the instance with its name and parsed
  configuration, runs \<^verbatim>\<open>init\<close> and then \<^verbatim>\<open>update\<close>. A later change of the configuration
  replaces \<^verbatim>\<open>data\<close> and runs \<^verbatim>\<open>update\<close> again.
\<close>

definition attach :: "host \<Rightarrow> string \<Rightarrow> animation_data \<Rightarrow> entity \<Rightarrow> entity outcome" where
  "attach h name d el =
     call (update h) name (el\<lparr>components := (components el)(name \<mapsto> Animation (init name d))\<rparr>)"

definition reconfigure :: "host \<Rightarrow> string \<Rightarrow> animation_data \<Rightarrow> entity \<Rightarrow> entity outcome" where
  "reconfigure h name d el = call (\<lambda>(self, el'). update h (self\<lparr>data := d\<rparr>, el')) name el"

text \<open>
  The host runs a handler of the instance when an event it is registered for is dispatched
  on the entity, and \<^verbatim>\<open>this.beginAnimation\<close> when an armed timer fires.
\<close>

fun handle :: "host \<Rightarrow> handler \<Rightarrow> state \<Rightarrow> state outcome" where
  "handle h OnStartEvent s = onStartEvent h s"
| "handle h PauseAnimation s = Done (pauseAnimation s)"
| "handle h ResumeAnimation s = Done (resumeAnimation s)"

definition deliver :: "host \<Rightarrow> string \<Rightarrow> string \<Rightarrow> handler \<Rightarrow> entity \<Rightarrow> entity outcome" where
  "deliver h ev name handler el =
     (if (ev, name, handler) \<in> listeners el then call (handle h handler) name el else Done el)"

definition fire_timer :: "host \<Rightarrow> string \<Rightarrow> jsnum \<Rightarrow> entity \<Rightarrow> entity outcome" where
  "fire_timer h name d el =
     (if (name, d) \<in> set (timers el)
      then call (beginAnimation h) name (el\<lparr>timers := remove1 (name, d) (timers el)\<rparr>)
      else Done el)"

text \<open>Entity pause and entity play, and one frame.\<close>

definition entity_pause :: "string \<Rightarrow> entity \<Rightarrow> entity outcome" where
  "entity_pause name el = call (\<lambda>s. Done (pause s)) name el"

definition entity_play :: "string \<Rightarrow> entity \<Rightarrow> entity outcome" where
  "entity_play name el = call (\<lambda>s. Done (play s)) name el"

definition frame :: "host \<Rightarrow> real \<Rightarrow> string \<Rightarrow> entity \<Rightarrow> entity outcome" where
  "frame h dt name el = call (tick h dt) name el"

text \<open>
  The life of an instance after it is attached is a sequence of such calls. A call that
  throws leaves its mutations, and the host goes on with the next call.
\<close>

datatype lifecycle_op =
    Update animation_data
  | TickOp real
  | Remove
  | Pause
  | Play
  | Event string handler
  | Timer jsnum

fun step :: "host \<Rightarrow> string \<Rightarrow> lifecycle_op \<Rightarrow> entity \<Rightarrow> entity outcome" where
  "step h name (Update d) el = reconfigure h name d el"
| "step h name (TickOp dt) el = frame h dt name el"
| "step h name Remove el = call (\<lambda>s. Done (remove s)) name el"
| "step h name Pause el = entity_pause name el"
| "step h name Play el = entity_play name el"
| "step h name (Event ev handler) el = deliver h ev name handler el"
| "step h name (Timer d) el = fire_timer h name d el"

fun run :: "host \<Rightarrow> string \<Rightarrow> lifecycle_op list \<Rightarrow> entity \<Rightarrow> entity" where
  "run h name [] el = el"
| "run h name (op # ops) el = run h name ops (state_of (step h name op el))"

subsection \<open>What a method leaves alone\<close>

text \<open>
  Building the configuration writes the configuration and the scratch buffers of the
  instance; the engine writes the buffers that hold its targets, and its callbacks write
  the running flag, the interpolation object (never its recorded calls), the raw graph
  and the scene writes, and they append notifications. The three projections blank out
  the parts that are written, so that two states with the same projection agree on all
  the rest.
\<close>

definition config_frame :: "animation_component \<Rightarrow> animation_component" where
  "config_frame self =
     self\<lparr>config := Map.empty, targets := [], targetsArray := [], fromColor := [], toColor := []\<rparr>"

definition entity_frame :: "entity \<Rightarrow> entity" where
  "entity_frame el = el\<lparr>raw := VNull, writes := []\<rparr>"

definition engine_frame :: "animation_component \<Rightarrow> animation_component \<times> call list option" where
  "engine_frame self =
     (self\<lparr>animation := None, animationIsPlaying := False, targets := [], targetsArray := [],
           fromColor := []\<rparr>,
      map_option a_calls (animation self))"

text \<open>
  The entity after callbacks: as before, up to the raw graph and the scene writes, with
  completion notifications of the instance appended.
\<close>

definition appended :: "string \<Rightarrow> entity \<Rightarrow> entity \<Rightarrow> bool" where
  "appended detail el el' =
     (\<exists>mid. entity_frame el' = entity_frame (el\<lparr>emitted := emitted el @ mid\<rparr>) \<and>
            set mid \<subseteq> {(''animationcomplete'', detail)})"


subsection \<open>A scene for the examples\<close>

text \<open>
  An entity with a material, a visibility flag and a rotation, and a host whose engine
  invokes no callback and leaves its targets where the component has put them. The entity has no other component: \<^verbatim>\<open>getComponentProperty\<close> gives
  \<^verbatim>\<open>null\<close> for another name and throws on a property of it. Numbers print as \<^verbatim>\<open>NaN\<close>,
  \<^verbatim>\<open>Infinity\<close> or the decimal digits of their integer part; no example prints a fraction.
\<close>

fun show_number :: "jsnum \<Rightarrow> string" where
  "show_number NaN = ''NaN''"
| "show_number PosInf = ''Infinity''"
| "show_number NegInf = ''-Infinity''"
| "show_number (Fin r) = (if r < 0 then ''-'' else []) @ digits10 (nat \<lfloor>\<bar>r\<bar>\<rfloor>)"

definition example_parse :: "string \<Rightarrow> (string \<times> jsval) list" where
  "example_parse s =
     (if s = ''0 0 0'' then [(''x'', VNum (Fin 0)), (''y'', VNum (Fin 0)), (''z'', VNum (Fin 0))]
      else if s = ''180 0 0'' then [(''x'', VNum (Fin 180)), (''y'', VNum (Fin 0)), (''z'', VNum (Fin 0))]
      else [])"

definition example_host :: host where
  "example_host =
     \<lparr>numberToString = show_number,
      coordinates_parse = example_parse,
      color_rgb = (\<lambda>v. (VNum (Fin 0), VNum (Fin 0), VNum (Fin 0))),
      registered = (\<lambda>n. None),
      anime_callbacks = (\<lambda>c. []),
      anime_targets = (\<lambda>c. (targets c, targetsArray c, fromColor c))\<rparr>"

definition example_props :: "string \<Rightarrow> error + jsval" where
  "example_props p =
     (if p = ''material.opacity'' then Inr (VNum (Fin 1))
      else if p = ''visible'' then Inr (VBool True)
      else if p = ''rotation'' then
        Inr (VObj [(''x'', VNum (Fin 90)), (''y'', VNum (Fin 0)), (''z'', VNum (Fin 0))])
      else if CHR ''.'' \<in> set p then Inl TypeError
      else Inr VNull)"

definition example_entity :: entity where
  "example_entity =
     \<lparr>components =
        [''material'' \<mapsto> Other [(''opacity'', VObj [(''type'', VStr ''number'')]),
                                  (''color'', VObj [(''type'', VStr ''color'')])],
         ''visible'' \<mapsto> Other [(''type'', VStr ''boolean'')],
         ''rotation'' \<mapsto> Other [(''type'', VStr ''vec3'')]],
      listeners = {}, emitted = [], timers = [], props = example_props,
      raw = VObj [(''object3D'', VObj [(''visible'', VBool True)])], writes = []\<rparr>"

definition example_data :: animation_data where
  "example_data =
     \<lparr>d_autoplay = True, d_delay = Fin 0, d_dir = [], d_dur = Fin 1000,
      d_easing = ''easeInQuad'', d_elasticity = Fin 400, d_from = [], d_loop = VNum (Fin 0),
      d_property = [], d_startEvents = [], d_pauseEvents = [], d_resumeEvents = [],
      d_to = [], d_type = [], d_isRawProperty = False\<rparr>"

text \<open>An instance in the middle of a run: half a second in, with an interpolation object.\<close>

definition example_running :: animation_component where
  "example_running =
     (init ''animation'' (example_data\<lparr>d_property := ''material.opacity'', d_to := ''0''\<rparr>))
       \<lparr>animation := Some (new_anime Map.empty), time := 500, animationIsPlaying := True\<rparr>"

text \<open>
  An animation of the opacity that waits for a \<^verbatim>\<open>click\<close>, attached to the scene; and an
  animation with an empty \<^verbatim>\<open>property\<close>, attached and taken through an entity pause and an
  entity play.
\<close>

definition waiting_data :: animation_data where
  "waiting_data =
     example_data\<lparr>d_property := ''material.opacity'', d_from := ''0'', d_to := ''1'',
                   d_startEvents := [''click''], d_pauseEvents := [''hold'']\<rparr>"

definition waiting_entity :: entity where
  "waiting_entity = state_of (attach example_host ''animation'' waiting_data example_entity)"

definition waiting_entity_resumed :: entity where
  "waiting_entity_resumed = run example_host ''animation'' [Pause, Play] waiting_entity"

definition unconfigured_entity :: entity where
  "unconfigured_entity = state_of (attach example_host ''animation'' example_data example_entity)"

definition unconfigured_entity_resumed :: entity where
  "unconfigured_entity_resumed = run example_host ''animation'' [Pause, Play] unconfigured_entity"


definition rival_b_data :: animation_data where
  "rival_b_data =
     example_data\<lparr>d_property := ''material.opacity'', d_from := ''1'', d_to := ''0''\<rparr>"














text \<open>An animation of the opacity that starts a quarter of a second after it is attached.\<close>

definition delayed_data :: animation_data where
  "delayed_data =
     example_data\<lparr>d_property := ''material.opacity'', d_from := ''0'', d_to := ''1'',
                   d_delay := Fin 250\<rparr>"

text \<open>
  Configurations of the default route: a colour name to a colour name, a number to a
  number, a number to a word, a visible entity (the scene has \<^verbatim>\<open>visible\<close> true) to be
  hidden without and with an explicit start value; and a rotation by half a turn.
\<close>

definition words_data :: animation_data where
  "words_data = example_data\<lparr>d_property := ''material.color'', d_from := ''red'', d_to := ''blue''\<rparr>"

definition numbers_data :: animation_data where
  "numbers_data = example_data\<lparr>d_property := ''material.opacity'', d_from := ''0'', d_to := ''10''\<rparr>"

definition mixed_data :: animation_data where
  "mixed_data = example_data\<lparr>d_property := ''material.opacity'', d_from := ''0'', d_to := ''abc''\<rparr>"

definition hide_data :: animation_data where
  "hide_data = example_data\<lparr>d_property := ''visible'', d_to := ''false''\<rparr>"

definition hide_explicit_data :: animation_data where
  "hide_explicit_data = example_data\<lparr>d_property := ''visible'', d_from := ''true'', d_to := ''false''\<rparr>"

definition turn_data :: animation_data where
  "turn_data = example_data\<lparr>d_property := ''rotation'', d_from := ''0 0 0'', d_to := ''180 0 0''\<rparr>"

text \<open>
  An animation of a raw path through \<^verbatim>\<open>el.object3D.material\<close>, which the entity does not
  have.
\<close>

definition missing_path_data :: animation_data where
  "missing_path_data = example_data\<lparr>d_property := ''object3D.material.opacity'', d_to := ''1''\<rparr>"

section \<open>Frame lemmas\<close>

lemma config_frame_RawColor:
  "config_frame (state_of (updateConfigForRawColor h self el)) = config_frame self"
  by (simp add: config_frame_def updateConfigForRawColor_def setColorConfig_def Let_def
      split: sum.splits prod.splits)

lemma config_frame_Default:
  "config_frame (state_of (updateConfigForDefault h self el)) = config_frame self"
  by (simp add: config_frame_def updateConfigForDefault_def Let_def split: sum.splits)

lemma config_frame_Vector:
  "config_frame (state_of (updateConfigForVector h self el)) = config_frame self"
  by (simp add: config_frame_def updateConfigForVector_def Let_def split: sum.splits prod.splits)

lemma config_frame_updateConfig:
  "config_frame (state_of (updateConfig h self el)) = config_frame self"
  by (simp add: updateConfig_def Let_def config_frame_RawColor config_frame_Default
      config_frame_Vector split: sum.splits)

lemma config_frameD:
  assumes "config_frame a = config_frame b"
  shows "attrName a = attrName b" "data a = data b" "eventDetail a = eventDetail b"
    "time a = time b" "animation a = animation b" "animationIsPlaying a = animationIsPlaying b"
    "paused a = paused b" "pausedWasPlaying a = pausedWasPlaying b"
proof -
  have e: "f (config_frame a) = f (config_frame b)" for f :: "animation_component \<Rightarrow> 'x"
    using assms by simp
  show "attrName a = attrName b" using e[of attrName] by (simp add: config_frame_def)
  show "data a = data b" using e[of data] by (simp add: config_frame_def)
  show "eventDetail a = eventDetail b" using e[of eventDetail] by (simp add: config_frame_def)
  show "time a = time b" using e[of time] by (simp add: config_frame_def)
  show "animation a = animation b" using e[of animation] by (simp add: config_frame_def)
  show "animationIsPlaying a = animationIsPlaying b"
    using e[of animationIsPlaying] by (simp add: config_frame_def)
  show "paused a = paused b" using e[of paused] by (simp add: config_frame_def)
  show "pausedWasPlaying a = pausedWasPlaying b"
    using e[of pausedWasPlaying] by (simp add: config_frame_def)
qed

lemmas updateConfig_keeps = config_frameD[OF config_frame_updateConfig]

lemma setRawProperty_frame:
  "setRawProperty el p v t = Inr el' \<Longrightarrow> entity_frame el' = entity_frame el"
  by (auto simp: setRawProperty_def Let_def bindE_def entity_frame_def split: sum.splits)

lemma run_update_frame: "entity_frame (snd (state_of (run_update u a b el))) = entity_frame el"
proof (cases u)
  case (UpdRawColor d lr lg lb)
  then show ?thesis
    by (auto simp: Let_def split: sum.splits prod.splits dest: setRawProperty_frame)
next
  case (UpdDefault d lv ib)
  then show ?thesis
    by (auto simp: Let_def entity_frame_def split: sum.splits prod.splits
        dest: setRawProperty_frame[unfolded entity_frame_def])
next
  case (UpdObject3D d lx ly lz)
  then show ?thesis by (auto simp: Let_def entity_frame_def split: sum.splits prod.splits)
next
  case (UpdVector d lx ly lz)
  then show ?thesis by (auto simp: Let_def entity_frame_def split: sum.splits prod.splits)
qed

lemma appended_refl: "appended detail el el"
  unfolding appended_def by (rule exI[of _ "[]"]) simp

lemma appended_trans:
  assumes "appended detail el el'" "appended detail el' el''"
  shows "appended detail el el''"
proof -
  from assms(1) obtain m1 where
    m1: "entity_frame el' = entity_frame (el\<lparr>emitted := emitted el @ m1\<rparr>)"
        "set m1 \<subseteq> {(''animationcomplete'', detail)}"
    unfolding appended_def by blast
  from assms(2) obtain m2 where
    m2: "entity_frame el'' = entity_frame (el'\<lparr>emitted := emitted el' @ m2\<rparr>)"
        "set m2 \<subseteq> {(''animationcomplete'', detail)}"
    unfolding appended_def by blast
  have e: "emitted el' = emitted el @ m1"
    using arg_cong[OF m1(1), of emitted] by (simp add: entity_frame_def)
  have "entity_frame (el'\<lparr>emitted := emitted el' @ m2\<rparr>) =
          (entity_frame el')\<lparr>emitted := emitted el' @ m2\<rparr>"
    by (simp add: entity_frame_def)
  also have "\<dots> = (entity_frame (el\<lparr>emitted := emitted el @ m1\<rparr>))\<lparr>emitted := emitted el' @ m2\<rparr>"
    by (simp only: m1(1))
  also have "\<dots> = entity_frame (el\<lparr>emitted := emitted el @ (m1 @ m2)\<rparr>)"
    by (simp add: entity_frame_def e)
  finally have "entity_frame el'' = entity_frame (el\<lparr>emitted := emitted el @ (m1 @ m2)\<rparr>)"
    using m2(1) by simp
  moreover have "set (m1 @ m2) \<subseteq> {(''animationcomplete'', detail)}"
    using m1(2) m2(2) by simp
  ultimately show ?thesis unfolding appended_def by blast
qed

lemma run_callback_frame:
  "engine_frame (fst (state_of (run_callback cb (self, el)))) = engine_frame self \<and>
   appended (eventDetail self) el (snd (state_of (run_callback cb (self, el))))"
proof (cases cb)
  case CbComplete
  have "appended (eventDetail self) el (el\<lparr>emitted := emitted el @ [(''animationcomplete'', eventDetail self)]\<rparr>)"
    unfolding appended_def
    by (rule exI[of _ "[(''animationcomplete'', eventDetail self)]"]) simp
  then show ?thesis using CbComplete
    by (simp add: run_callback_def emit_def engine_frame_def)
next
  case (CbUpdate a b)
  show ?thesis
  proof (cases "animation self")
    case None
    then show ?thesis using CbUpdate by (simp add: run_callback_def appended_refl)
  next
    case (Some an)
    note an = Some
    show ?thesis
    proof (cases "a_params an ''update''")
      case None
      then show ?thesis using CbUpdate an by (simp add: run_callback_def appended_refl)
    next
      case (Some cv)
      note cv = Some
      show ?thesis
      proof (cases cv)
        case (CUpdate u)
        have "entity_frame (snd (state_of (run_update u a b el))) = entity_frame el"
          by (rule run_update_frame)
        then have f: "appended (eventDetail self) el (snd (state_of (run_update u a b el)))"
          unfolding appended_def by (intro exI[of _ "[]"]) simp
        show ?thesis
        proof (cases "run_update u a b el")
          case (Done p)
          then show ?thesis using CbUpdate an cv CUpdate f
            by (cases p) (simp add: run_callback_def engine_frame_def)
        next
          case (Thrown e p)
          then show ?thesis using CbUpdate an cv CUpdate f
            by (cases p) (simp add: run_callback_def engine_frame_def)
        qed
      qed (use CbUpdate an cv in \<open>simp_all add: run_callback_def appended_refl\<close>)
    qed
  qed
qed

lemma engine_frame_eventDetail:
  "engine_frame a = engine_frame b \<Longrightarrow> eventDetail a = eventDetail b"
proof -
  assume "engine_frame a = engine_frame b"
  then have "eventDetail (fst (engine_frame a)) = eventDetail (fst (engine_frame b))"
    by simp
  then show ?thesis by (simp add: engine_frame_def)
qed

lemma tween_frame: "engine_frame (tween h self) = engine_frame self"
  by (simp add: tween_def engine_frame_def split: prod.splits)

lemma tween_fields:
  "animation (tween h self) = animation self"
  "animationIsPlaying (tween h self) = animationIsPlaying self"
  "data (tween h self) = data self" "attrName (tween h self) = attrName self"
  "eventDetail (tween h self) = eventDetail self" "config (tween h self) = config self"
  "time (tween h self) = time self"
  by (simp_all add: tween_def split: prod.splits)

lemma run_callbacks_frame:
  "engine_frame (fst (state_of (run_callbacks cbs s))) = engine_frame (fst s) \<and>
   appended (eventDetail (fst s)) (snd s) (snd (state_of (run_callbacks cbs s)))"
proof (induction cbs arbitrary: s)
  case Nil
  show ?case by (simp add: appended_refl)
next
  case (Cons cb cbs)
  obtain self el where s: "s = (self, el)" by (cases s)
  have fs: "fst s = self" "snd s = el" by (simp_all add: s)
  have one: "engine_frame (fst (state_of (run_callback cb s))) = engine_frame self"
    and app: "appended (eventDetail self) el (snd (state_of (run_callback cb s)))"
    using run_callback_frame[of cb self el] unfolding s by blast+
  show ?case
  proof (cases "run_callback cb s")
    case (Done s1)
    have r: "run_callbacks (cb # cbs) s = run_callbacks cbs s1"
      using Done by (simp add: andThen_def)
    have f1: "engine_frame (fst s1) = engine_frame self"
      using one unfolding Done by simp
    have a1: "appended (eventDetail self) el (snd s1)"
      using app unfolding Done by simp
    have d: "eventDetail (fst s1) = eventDetail self"
      by (rule engine_frame_eventDetail[OF f1])
    have ih1: "engine_frame (fst (state_of (run_callbacks cbs s1))) = engine_frame (fst s1)"
      and ih2: "appended (eventDetail (fst s1)) (snd s1) (snd (state_of (run_callbacks cbs s1)))"
      using Cons.IH[of s1] by blast+
    have "appended (eventDetail self) el (snd (state_of (run_callbacks cbs s1)))"
      by (rule appended_trans[OF a1 ih2[unfolded d]])
    moreover have "engine_frame (fst (state_of (run_callbacks cbs s1))) = engine_frame self"
      using ih1 f1 by (rule trans)
    ultimately show ?thesis unfolding r fs by blast
  next
    case (Thrown e s1)
    have r: "run_callbacks (cb # cbs) s = Thrown e s1"
      using Thrown by (simp add: andThen_def)
    show ?thesis using one app unfolding r fs Thrown by simp
  qed
qed

lemma engine_frameD:
  assumes "engine_frame a = engine_frame b"
  shows "attrName a = attrName b" "data a = data b" "eventDetail a = eventDetail b"
    "time a = time b" "config a = config b" "toColor a = toColor b"
    "paused a = paused b" "pausedWasPlaying a = pausedWasPlaying b"
    "map_option a_calls (animation a) = map_option a_calls (animation b)"
proof -
  have c: "map_option a_calls (animation a) = map_option a_calls (animation b)"
    using assms by (simp add: engine_frame_def)
  have e: "f (fst (engine_frame a)) = f (fst (engine_frame b))"
    for f :: "animation_component \<Rightarrow> 'x"
    using assms by simp
  show "attrName a = attrName b" using e[of attrName] by (simp add: engine_frame_def)
  show "data a = data b" using e[of data] by (simp add: engine_frame_def)
  show "eventDetail a = eventDetail b" using e[of eventDetail] by (simp add: engine_frame_def)
  show "time a = time b" using e[of time] by (simp add: engine_frame_def)
  show "config a = config b" using e[of config] by (simp add: engine_frame_def)
  show "toColor a = toColor b" using e[of toColor] by (simp add: engine_frame_def)
  show "paused a = paused b" using e[of paused] by (simp add: engine_frame_def)
  show "pausedWasPlaying a = pausedWasPlaying b"
    using e[of pausedWasPlaying] by (simp add: engine_frame_def)
  show "map_option a_calls (animation a) = map_option a_calls (animation b)" by (rule c)
qed

lemma entity_frameD:
  assumes "entity_frame a = entity_frame b"
  shows "components a = components b" "listeners a = listeners b" "timers a = timers b"
    "props a = props b"
proof -
  have e: "f (entity_frame a) = f (entity_frame b)" for f :: "entity \<Rightarrow> 'x"
    using assms by simp
  show "components a = components b" using e[of components] by (simp add: entity_frame_def)
  show "listeners a = listeners b" using e[of listeners] by (simp add: entity_frame_def)
  show "timers a = timers b" using e[of timers] by (simp add: entity_frame_def)
  show "props a = props b" using e[of props] by (simp add: entity_frame_def)
qed

lemma appendedD:
  assumes "appended detail el el'"
  shows "components el' = components el" "listeners el' = listeners el" "timers el' = timers el"
    "props el' = props el"
    "\<exists>mid. emitted el' = emitted el @ mid \<and> set mid \<subseteq> {(''animationcomplete'', detail)}"
proof -
  from assms obtain mid where
    m: "entity_frame el' = entity_frame (el\<lparr>emitted := emitted el @ mid\<rparr>)"
       "set mid \<subseteq> {(''animationcomplete'', detail)}"
    unfolding appended_def by blast
  show "components el' = components el" using entity_frameD(1)[OF m(1)] by simp
  show "listeners el' = listeners el" using entity_frameD(2)[OF m(1)] by simp
  show "timers el' = timers el" using entity_frameD(3)[OF m(1)] by simp
  show "props el' = props el" using entity_frameD(4)[OF m(1)] by simp
  have "emitted el' = emitted el @ mid"
    using arg_cong[OF m(1), of emitted] by (simp add: entity_frame_def)
  then show "\<exists>mid. emitted el' = emitted el @ mid \<and> set mid \<subseteq> {(''animationcomplete'', detail)}"
    using m(2) by blast
qed

lemma anime_call_frame:
  assumes "animation self = Some a"
  shows "engine_frame (fst (state_of (anime_call h c (self, el)))) =
           engine_frame (self\<lparr>animation := Some (a\<lparr>a_calls := a_calls a @ [c]\<rparr>)\<rparr>)"
    and "appended (eventDetail self) el (snd (state_of (anime_call h c (self, el))))"
proof -
  let ?s1 = "self\<lparr>animation := Some (a\<lparr>a_calls := a_calls a @ [c]\<rparr>)\<rparr>"
  have r: "anime_call h c (self, el) = run_callbacks (anime_callbacks h ?s1) (tween h ?s1, el)"
    using assms by (simp add: anime_call_def Let_def)
  have d: "eventDetail (tween h ?s1) = eventDetail self"
    using engine_frame_eventDetail[OF tween_frame[of h ?s1]] by simp
  from run_callbacks_frame[of "anime_callbacks h ?s1" "(tween h ?s1, el)"]
  have f: "engine_frame (fst (state_of (run_callbacks (anime_callbacks h ?s1) (tween h ?s1, el)))) =
             engine_frame (tween h ?s1)"
    and ap: "appended (eventDetail (tween h ?s1)) el
               (snd (state_of (run_callbacks (anime_callbacks h ?s1) (tween h ?s1, el))))"
    by simp_all
  show "engine_frame (fst (state_of (anime_call h c (self, el)))) = engine_frame ?s1"
    unfolding r using f by (simp only: tween_frame)
  show "appended (eventDetail self) el (snd (state_of (anime_call h c (self, el))))"
    unfolding r using ap by (simp only: d)
qed

lemma anime_call_None: "animation self = None \<Longrightarrow> anime_call h c (self, el) = Thrown TypeError (self, el)"
  by (simp add: anime_call_def)

lemma not_threw_Done: "\<not> threw r \<Longrightarrow> r = Done (state_of r)"
  by (cases r) simp_all

section \<open>Evaluating the examples\<close>

lemmas number_parsing =
  parseFloat_str_def strDecimal_def strUnsignedDecimal_def exponentPart_def isDigit_def
  isWhite_def decimalValue_def digitVal_def scale10_def StringToNumber_def trim_def
  nonDecimal_def radixOf_def radixDigit_def isNaN_def

lemmas method_defs =
  attach_def call_def update_def init_def createAndStartAnimation_def updateConfig_def
  getPropertyType_def Object_prototype_def isRawProperty_def startsWith_def updateConfigForDefault_def
  defaultFrom_def js_or_def addEventListeners_def removeEventListeners_def
  addEventListeners_fn_def removeEventListeners_fn_def store_def fieldOf_def
  beginAnimation_def anime_call_def tween_def new_anime_def andThen_def emit_def
  stopRelatedAnimations_def stopRelated_def arm_timer_def entity_pause_def entity_play_def
  frame_def pause_def play_def tick_def pauseAnimation_def resumeAnimation_def
  instance_of_def deliver_def onStartEvent_def Let_def

lemmas scene_defs =
  example_entity_def example_data_def example_host_def example_props_def

section \<open>What a begin does\<close>

lemma stopRelated_cong:
  "attrName a = attrName b \<Longrightarrow> data a = data b \<Longrightarrow> stopRelated a k c = stopRelated b k c"
  by (cases c) (simp_all add: stopRelated_def)

lemma beginAnimation_Done:
  assumes "beginAnimation h (self, el) = Done (self', el')"
  obtains c a mid where
    "updateConfig h self el = Done c"
    "animation self = Some a"
    "engine_frame self' =
       engine_frame (c\<lparr>time := 0, animation := Some (a\<lparr>a_calls := a_calls a @ [Seek 0]\<rparr>)\<rparr>)"
    "animationIsPlaying self'"
    "components el' = (\<lambda>k. map_option (stopRelated self k) (components el k))"
    "listeners el' = listeners el" "timers el' = timers el" "props el' = props el"
    "emitted el' = emitted el @ mid @ [(''animationbegin'', eventDetail self)]"
    "set mid \<subseteq> {(''animationcomplete'', eventDetail self)}"
proof -
  obtain c where c: "updateConfig h self el = Done c"
    using assms by (cases "updateConfig h self el") (simp_all add: beginAnimation_def)
  have same: "config_frame c = config_frame self"
    using config_frame_updateConfig[of h self el] c by simp
  note keep = config_frameD[OF same]
  obtain s2 el2 where call: "anime_call h (Seek 0) (c\<lparr>time := 0\<rparr>, el) = Done (s2, el2)"
    using assms c
    by (cases "anime_call h (Seek 0) (c\<lparr>time := 0\<rparr>, el)")
       (auto simp add: beginAnimation_def andThen_def)
  have res: "(self', el') =
      emit ''animationbegin'' (stopRelatedAnimations (s2\<lparr>animationIsPlaying := True\<rparr>, el2))"
    using assms c call by (simp add: beginAnimation_def andThen_def)
  obtain a where a: "animation c = Some a"
    using call anime_call_None[where self = "c\<lparr>time := 0\<rparr>" and h = h and c = "Seek 0" and el = el]
    by (cases "animation c") auto
  have a0: "animation (c\<lparr>time := 0\<rparr>) = Some a" using a by simp
  have f2: "engine_frame s2 =
      engine_frame (c\<lparr>time := 0, animation := Some (a\<lparr>a_calls := a_calls a @ [Seek 0]\<rparr>)\<rparr>)"
    using anime_call_frame(1)[OF a0, where h = h and c = "Seek 0" and el = el] call by simp
  have ap: "appended (eventDetail c) el el2"
    using anime_call_frame(2)[OF a0, where h = h and c = "Seek 0" and el = el] call by simp
  note e2 = engine_frameD[OF f2]
  note ad = appendedD[OF ap]
  have self': "self' = s2\<lparr>animationIsPlaying := True\<rparr>"
    using res by (simp add: emit_def stopRelatedAnimations_def)
  have el': "el' = el2\<lparr>components := (\<lambda>k. map_option (stopRelated (s2\<lparr>animationIsPlaying := True\<rparr>) k)
                                         (components el2 k)),
                       emitted := emitted el2 @ [(''animationbegin'', eventDetail s2)]\<rparr>"
    using res by (simp add: emit_def stopRelatedAnimations_def)
  have sr: "stopRelated (s2\<lparr>animationIsPlaying := True\<rparr>) k = stopRelated self k" for k
    by (rule ext, rule stopRelated_cong) (simp_all add: e2 keep)
  from ad(5) obtain mid where
    mid: "emitted el2 = emitted el @ mid" "set mid \<subseteq> {(''animationcomplete'', eventDetail c)}"
    by blast
  show thesis
  proof (rule that[of c a mid])
    show "updateConfig h self el = Done c" by (rule c)
    show "animation self = Some a" using a keep by simp
    show "engine_frame self' =
            engine_frame (c\<lparr>time := 0, animation := Some (a\<lparr>a_calls := a_calls a @ [Seek 0]\<rparr>)\<rparr>)"
      using f2 by (simp add: self' engine_frame_def)
    show "animationIsPlaying self'" by (simp add: self')
    show "components el' = (\<lambda>k. map_option (stopRelated self k) (components el k))"
      by (simp add: el' sr ad)
    show "listeners el' = listeners el" by (simp add: el' ad)
    show "timers el' = timers el" by (simp add: el' ad)
    show "props el' = props el" by (simp add: el' ad)
    show "emitted el' = emitted el @ mid @ [(''animationbegin'', eventDetail self)]"
      by (simp add: el' mid e2 keep)
    show "set mid \<subseteq> {(''animationcomplete'', eventDetail self)}"
      using mid(2) keep by simp
  qed
qed

lemma rewire_listeners:
  "\<exists>L. addEventListeners (removeEventListeners (self, el)) = (self, el\<lparr>listeners := L\<rparr>)"
  by (simp add: addEventListeners_def removeEventListeners_def addEventListeners_fn_def
      removeEventListeners_fn_def Let_def) (rule exI, rule refl)

section \<open>Fields of objects\<close>

lemma map_of_setField:
  "map_of (setField fs k v) k' = (if k' = k then Some v else map_of fs k')"
  by (induction fs) auto

lemma fieldOf_setField:
  "fieldOf (setField fs k v) k' = (if k' = k then v else fieldOf fs k')"
  by (simp add: fieldOf_def map_of_setField)

lemma map_of_CVal: "map_of (map (\<lambda>(k, v). (k, CVal v)) fs) k = map_option CVal (map_of fs k)"
  by (induction fs) auto

lemma assignAll_apply:
  "assignAll c fs k = (case map_of fs k of None \<Rightarrow> c k | Some v \<Rightarrow> Some (CVal v))"
  by (simp add: assignAll_def map_add_def map_of_CVal split: option.splits)

lemma toRadians_object:
  "toRadians (VObj fs) =
     Inr (VObj (setField (setField (setField fs ''x'' (VNum (degToRad (fieldOf fs ''x''))))
                            ''y'' (VNum (degToRad (fieldOf fs ''y''))))
                  ''z'' (VNum (degToRad (fieldOf fs ''z'')))))"
  by (simp add: toRadians_def bindE_def fieldOf_def map_of_setField)

section \<open>Entity pause and play\<close>

text \<open>
  Whatever the running flag was, \<^verbatim>\<open>pause\<close> followed by \<^verbatim>\<open>play\<close> leaves the instance
  running, with the interpolation object (or the lack of one) it had.
\<close>

lemma play_after_pause_runs:
  "animationIsPlaying (fst (play (pause (self, el)))) \<and>
   animation (fst (play (pause (self, el)))) = animation self \<and>
   time (fst (play (pause (self, el)))) = time self"
  by (simp add: play_def pause_def pauseAnimation_def resumeAnimation_def
      addEventListeners_def removeEventListeners_def Let_def)

lemma tick_without_object_throws:
  "animationIsPlaying self \<Longrightarrow> animation self = None \<Longrightarrow>
   tick h dt (self, el) = Thrown TypeError (self\<lparr>time := time self + dt\<rparr>, el)"
  by (simp add: tick_def anime_call_def)

section \<open>An instance without an interpolation object\<close>

text \<open>
  Only an update with a non-empty \<^verbatim>\<open>property\<close> creates the interpolation object: an
  instance that has none keeps having none through every other call of its life, also
  through the calls that throw.
\<close>

lemma call_instance:
  assumes "instance_of el name = Some c"
  shows "instance_of (state_of (call m name el)) name = Some (fst (state_of (m (c, el))))"
proof -
  have c: "components el name = Some (Animation c)"
    using assms by (auto simp add: instance_of_def split: option.splits component.splits)
  show ?thesis
    by (cases "m (c, el)") (auto simp add: call_def c store_def instance_of_def)
qed

lemma begin_without_object:
  assumes "animation self = None"
  shows "animation (fst (state_of (beginAnimation h (self, el)))) = None"
proof (cases "updateConfig h self el")
  case (Done c)
  have "animation c = None"
    using updateConfig_keeps(5)[of h self el] Done assms by simp
  then show ?thesis using Done
    by (simp add: beginAnimation_def anime_call_def andThen_def)
next
  case (Thrown e c)
  have "animation c = None"
    using updateConfig_keeps(5)[of h self el] Thrown assms by simp
  then show ?thesis using Thrown by (simp add: beginAnimation_def)
qed

lemma step_without_object:
  assumes "instance_of el name = Some c" and "animation c = None"
    and "\<forall>d. x = Update d \<longrightarrow> d_property d = []"
  shows "\<exists>c'. instance_of (state_of (step h name x el)) name = Some c' \<and> animation c' = None"
proof (cases x)
  case (Update d)
  then have "d_property d = []" using assms(3) by simp
  then have "animation (fst (state_of (update h (c\<lparr>data := d\<rparr>, el)))) = None"
    using assms(2) by (simp add: update_def)
  then show ?thesis
    using call_instance[OF assms(1), of "\<lambda>(self, el'). update h (self\<lparr>data := d\<rparr>, el')"] Update
    by (simp add: reconfigure_def)
next
  case (TickOp dt)
  have "animation (fst (state_of (tick h dt (c, el)))) = None"
    using assms(2) by (simp add: tick_def anime_call_def)
  then show ?thesis
    using call_instance[OF assms(1), of "tick h dt"] TickOp by (simp add: frame_def)
next
  case Remove
  have "animation (fst (remove (c, el))) = None"
    using assms(2)
    by (simp add: remove_def removeEventListeners_def pauseAnimation_def Let_def)
  then show ?thesis
    using call_instance[OF assms(1), of "\<lambda>s. Done (remove s)"] Remove by simp
next
  case Pause
  have "animation (fst (pause (c, el))) = None"
    using assms(2)
    by (simp add: pause_def removeEventListeners_def pauseAnimation_def Let_def)
  then show ?thesis
    using call_instance[OF assms(1), of "\<lambda>s. Done (pause s)"] Pause
    by (simp add: entity_pause_def)
next
  case Play
  have "animation (fst (play (c, el))) = None"
    using assms(2)
    by (simp add: play_def addEventListeners_def resumeAnimation_def Let_def)
  then show ?thesis
    using call_instance[OF assms(1), of "\<lambda>s. Done (play s)"] Play
    by (simp add: entity_play_def)
next
  case (Event ev hd)
  have "animation (fst (state_of (handle h hd (c, el)))) = None"
  proof (cases hd)
    case OnStartEvent
    then show ?thesis
      using assms(2) begin_without_object[of c h el]
      by (simp add: onStartEvent_def arm_timer_def)
  next
    case PauseAnimation
    then show ?thesis using assms(2) by (simp add: pauseAnimation_def)
  next
    case ResumeAnimation
    then show ?thesis using assms(2) by (simp add: resumeAnimation_def)
  qed
  then show ?thesis
    using call_instance[OF assms(1), of "handle h hd"] Event assms(1,2)
    by (simp add: deliver_def)
next
  case (Timer d)
  let ?el = "el\<lparr>timers := remove1 (name, d) (timers el)\<rparr>"
  have i: "instance_of ?el name = Some c"
    using assms(1) by (simp add: instance_of_def)
  have "animation (fst (state_of (beginAnimation h (c, ?el)))) = None"
    by (rule begin_without_object[OF assms(2)])
  then show ?thesis
    using call_instance[OF i, of "beginAnimation h"] Timer assms(1,2)
    by (simp add: fire_timer_def)
qed

lemma run_without_object:
  assumes "instance_of el name = Some c" and "animation c = None"
    and "\<forall>d. Update d \<in> set ops \<longrightarrow> d_property d = []"
  shows "\<exists>c'. instance_of (run h name ops el) name = Some c' \<and> animation c' = None"
  using assms
proof (induction ops arbitrary: el c)
  case Nil
  then show ?case by simp
next
  case (Cons x ops)
  have "\<forall>d. x = Update d \<longrightarrow> d_property d = []"
    using Cons.prems(3) by simp
  from step_without_object[OF Cons.prems(1,2) this, of h]
  obtain c1 where c1: "instance_of (state_of (step h name x el)) name = Some c1"
    "animation c1 = None"
    by blast
  have "\<forall>d. Update d \<in> set ops \<longrightarrow> d_property d = []"
    using Cons.prems(3) by simp
  from Cons.IH[OF c1 this] show ?case by simp
qed

section \<open>An instance with an interpolation object\<close>

text \<open>
  No method sets \<^verbatim>\<open>this.animation\<close> back to \<^verbatim>\<open>null\<close>: an instance that has an
  interpolation object has one after every call of its life.
\<close>

lemma anime_call_keeps_object:
  assumes "animation self \<noteq> None"
  shows "animation (fst (state_of (anime_call h c (self, el)))) \<noteq> None"
proof -
  obtain a where a: "animation self = Some a" using assms by auto
  have "map_option a_calls (animation (fst (state_of (anime_call h c (self, el))))) =
          Some (a_calls a @ [c])"
    using engine_frameD(9)[OF anime_call_frame(1)[OF a, where h = h and c = c and el = el]]
    by simp
  then show ?thesis by auto
qed

lemma begin_keeps_object:
  assumes "animation self \<noteq> None"
  shows "animation (fst (state_of (beginAnimation h (self, el)))) \<noteq> None"
proof (cases "updateConfig h self el")
  case (Thrown e c)
  have "animation c = animation self"
    using updateConfig_keeps(5)[of h self el] Thrown by simp
  then show ?thesis using Thrown assms by (simp add: beginAnimation_def)
next
  case (Done c)
  have "animation c = animation self"
    using updateConfig_keeps(5)[of h self el] Done by simp
  then have "animation (c\<lparr>time := 0\<rparr>) \<noteq> None" using assms by simp
  from anime_call_keeps_object[OF this, of h "Seek 0" el]
  have k: "animation (fst (state_of (anime_call h (Seek 0) (c\<lparr>time := 0\<rparr>, el)))) \<noteq> None" .
  show ?thesis
  proof (cases "anime_call h (Seek 0) (c\<lparr>time := 0\<rparr>, el)")
    case (Done s2)
    then show ?thesis using \<open>updateConfig h self el = Done c\<close> k
      by (cases s2)
         (simp add: beginAnimation_def andThen_def emit_def stopRelatedAnimations_def)
  next
    case (Thrown e s2)
    then show ?thesis using \<open>updateConfig h self el = Done c\<close> k
      by (simp add: beginAnimation_def andThen_def)
  qed
qed

lemma update_keeps_object:
  assumes "animation self \<noteq> None"
  shows "animation (fst (state_of (update h (self, el)))) \<noteq> None"
proof (cases "d_property (data self) = []")
  case True
  then show ?thesis using assms by (simp add: update_def)
next
  case False
  define s0 where "s0 = self\<lparr>animationIsPlaying := False,
     config := (config self)
       (''autoplay'' \<mapsto> CVal (VBool False),
        ''direction'' \<mapsto> CVal (VStr (d_dir (data self))),
        ''duration'' \<mapsto> CVal (VNum (d_dur (data self))),
        ''easing'' \<mapsto> CVal (VStr (d_easing (data self))),
        ''elasticity'' \<mapsto> CVal (VNum (d_elasticity (data self))),
        ''loop'' \<mapsto> CVal (d_loop (data self)))\<rparr>"
  have u: "update h (self, el) = createAndStartAnimation h (s0, el)"
    using False by (simp add: update_def Let_def s0_def)
  show ?thesis
  proof (cases "updateConfig h s0 el")
    case (Thrown e c)
    have "animation c = animation s0"
      using updateConfig_keeps(5)[of h s0 el] Thrown by simp
    then show ?thesis using Thrown assms u
      by (simp add: createAndStartAnimation_def s0_def)
  next
    case (Done c)
    define s2 where
      "s2 = tween h (c\<lparr>animationIsPlaying := False, animation := Some (new_anime (config c))\<rparr>)"
    obtain L where L: "addEventListeners (removeEventListeners (s2, el)) = (s2, el\<lparr>listeners := L\<rparr>)"
      using rewire_listeners by blast
    have s2: "animation s2 \<noteq> None" by (simp add: s2_def tween_fields)
    have step: "createAndStartAnimation h (s0, el) =
        (let s3 = addEventListeners (removeEventListeners (s2, el))
         in if \<not> d_autoplay (data s2) \<or> d_startEvents (data s2) \<noteq> [] then Done s3
            else if truthy (VNum (d_delay (data s2))) then Done (arm_timer s3)
            else beginAnimation h s3)"
      unfolding createAndStartAnimation_def s2_def using Done by (simp add: Let_def)
    show ?thesis
      unfolding u step Let_def L
      using s2 begin_keeps_object[OF s2, of h "el\<lparr>listeners := L\<rparr>"]
      by (simp add: arm_timer_def)
  qed
qed

lemma step_keeps_object:
  assumes "instance_of el name = Some c" and "animation c \<noteq> None"
  shows "\<exists>c'. instance_of (state_of (step h name x el)) name = Some c' \<and> animation c' \<noteq> None"
proof (cases x)
  case (Update d)
  have "animation (fst (state_of (update h (c\<lparr>data := d\<rparr>, el)))) \<noteq> None"
    using update_keeps_object[of "c\<lparr>data := d\<rparr>" h el] assms(2) by simp
  then show ?thesis
    using call_instance[OF assms(1), of "\<lambda>(self, el'). update h (self\<lparr>data := d\<rparr>, el')"] Update
    by (simp add: reconfigure_def)
next
  case (TickOp dt)
  have "animation (fst (state_of (tick h dt (c, el)))) \<noteq> None"
    using assms(2) anime_call_keeps_object[of "c\<lparr>time := time c + dt\<rparr>" h "Tick (time c + dt)" el]
    by (simp add: tick_def)
  then show ?thesis
    using call_instance[OF assms(1), of "tick h dt"] TickOp by (simp add: frame_def)
next
  case Remove
  have "animation (fst (remove (c, el))) \<noteq> None"
    using assms(2)
    by (simp add: remove_def removeEventListeners_def pauseAnimation_def Let_def)
  then show ?thesis
    using call_instance[OF assms(1), of "\<lambda>s. Done (remove s)"] Remove by simp
next
  case Pause
  have "animation (fst (pause (c, el))) \<noteq> None"
    using assms(2)
    by (simp add: pause_def removeEventListeners_def pauseAnimation_def Let_def)
  then show ?thesis
    using call_instance[OF assms(1), of "\<lambda>s. Done (pause s)"] Pause
    by (simp add: entity_pause_def)
next
  case Play
  have "animation (fst (play (c, el))) \<noteq> None"
    using assms(2)
    by (simp add: play_def addEventListeners_def resumeAnimation_def Let_def)
  then show ?thesis
    using call_instance[OF assms(1), of "\<lambda>s. Done (play s)"] Play
    by (simp add: entity_play_def)
next
  case (Event ev hd)
  have "animation (fst (state_of (handle h hd (c, el)))) \<noteq> None"
  proof (cases hd)
    case OnStartEvent
    then show ?thesis
      using assms(2) begin_keeps_object[of c h el]
      by (simp add: onStartEvent_def arm_timer_def)
  next
    case PauseAnimation
    then show ?thesis using assms(2) by (simp add: pauseAnimation_def)
  next
    case ResumeAnimation
    then show ?thesis using assms(2) by (simp add: resumeAnimation_def)
  qed
  then show ?thesis
    using call_instance[OF assms(1), of "handle h hd"] Event assms(1,2)
    by (simp add: deliver_def)
next
  case (Timer d)
  let ?el = "el\<lparr>timers := remove1 (name, d) (timers el)\<rparr>"
  have i: "instance_of ?el name = Some c"
    using assms(1) by (simp add: instance_of_def)
  have "animation (fst (state_of (beginAnimation h (c, ?el)))) \<noteq> None"
    by (rule begin_keeps_object[OF assms(2)])
  then show ?thesis
    using call_instance[OF i, of "beginAnimation h"] Timer assms(1,2)
    by (simp add: fire_timer_def)
qed

lemma run_keeps_object:
  assumes "instance_of el name = Some c" and "animation c \<noteq> None"
  shows "\<exists>c'. instance_of (run h name ops el) name = Some c' \<and> animation c' \<noteq> None"
  using assms
proof (induction ops arbitrary: el c)
  case Nil
  then show ?case by simp
next
  case (Cons x ops)
  from step_keeps_object[OF Cons.prems, of h x]
  obtain c1 where c1: "instance_of (state_of (step h name x el)) name = Some c1"
    "animation c1 \<noteq> None"
    by blast
  from Cons.IH[OF c1] show ?case by simp
qed




text \<open>
  C2. \<^verbatim>\<open>pauseAnimation\<close> and \<^verbatim>\<open>resumeAnimation\<close> change the running flag and nothing else, of
  the instance or of the entity; a tick while paused does nothing; and the first tick
  after a pause and a resume advances the elapsed time from the value it had before the
  pause and drives the same interpolation object to that time.
\<close>

theorem pause_resume_toggle_the_flag_only:
  "pauseAnimation (self, el) = (self\<lparr>animationIsPlaying := False\<rparr>, el) \<and>
   resumeAnimation (self, el) = (self\<lparr>animationIsPlaying := True\<rparr>, el) \<and>
   tick h dt (pauseAnimation (self, el)) = Done (pauseAnimation (self, el)) \<and>
   (animation self = Some a \<longrightarrow>
      time (fst (state_of (tick h dt (resumeAnimation (pauseAnimation (self, el)))))) =
        time self + dt \<and>
      map_option a_calls
        (animation (fst (state_of (tick h dt (resumeAnimation (pauseAnimation (self, el))))))) =
        Some (a_calls a @ [Tick (time self + dt)]))"
proof (intro conjI impI)
  show "pauseAnimation (self, el) = (self\<lparr>animationIsPlaying := False\<rparr>, el)"
    by (simp add: pauseAnimation_def)
  show "resumeAnimation (self, el) = (self\<lparr>animationIsPlaying := True\<rparr>, el)"
    by (simp add: resumeAnimation_def)
  show "tick h dt (pauseAnimation (self, el)) = Done (pauseAnimation (self, el))"
    by (simp add: tick_def pauseAnimation_def)
next
  assume a: "animation self = Some a"
  let ?s1 = "self\<lparr>animationIsPlaying := True, time := time self + dt\<rparr>"
  have t: "tick h dt (resumeAnimation (pauseAnimation (self, el))) =
             anime_call h (Tick (time self + dt)) (?s1, el)"
    by (simp add: tick_def pauseAnimation_def resumeAnimation_def)
  have a1: "animation ?s1 = Some a" using a by simp
  have g: "engine_frame (fst (state_of (anime_call h (Tick (time self + dt)) (?s1, el)))) =
             engine_frame (?s1\<lparr>animation := Some (a\<lparr>a_calls := a_calls a @ [Tick (time self + dt)]\<rparr>)\<rparr>)"
    by (rule anime_call_frame(1)[OF a1])
  show "time (fst (state_of (tick h dt (resumeAnimation (pauseAnimation (self, el)))))) =
          time self + dt"
    using engine_frameD(4)[OF g] t by simp
  show "map_option a_calls
          (animation (fst (state_of (tick h dt (resumeAnimation (pauseAnimation (self, el))))))) =
          Some (a_calls a @ [Tick (time self + dt)])"
    using engine_frameD(9)[OF g] t by simp
qed

theorem pause_resume_toggle_the_flag_only_witness:
  "animation example_running = Some (new_anime Map.empty) \<and>
   time (fst (state_of (tick example_host 16
     (resumeAnimation (pauseAnimation (example_running, example_entity)))))) = 516 \<and>
   map_option a_calls (animation (fst (state_of (tick example_host 16
     (resumeAnimation (pauseAnimation (example_running, example_entity))))))) = Some [Tick 516]"
proof -
  have a: "animation example_running = Some (new_anime Map.empty)"
    by (simp add: example_running_def init_def)
  have t: "time example_running = 500"
    by (simp add: example_running_def init_def)
  have c: "a_calls (new_anime Map.empty) = []"
    by (simp add: new_anime_def)
  from pause_resume_toggle_the_flag_only
    [of example_running example_entity example_host 16 "new_anime Map.empty"] a
  have "time (fst (state_of (tick example_host 16
          (resumeAnimation (pauseAnimation (example_running, example_entity)))))) =
          time example_running + 16 \<and>
        map_option a_calls (animation (fst (state_of (tick example_host 16
          (resumeAnimation (pauseAnimation (example_running, example_entity))))))) =
          Some (a_calls (new_anime Map.empty) @ [Tick (time example_running + 16)])"
    by blast
  then show ?thesis using a by (simp add: t c)
qed

text \<open>
  C3 says that with an empty \<^verbatim>\<open>property\<close> no interpolation object is ever created and no
  tick does any work, whatever ticks, entity pauses and entity plays follow. No
  interpolation object is created, by the update or by any later call
  (\<open>run_without_object\<close>), and a tick does nothing as long as the entity has not been
  paused. After an entity pause and play the instance is running without an
  interpolation object: the next tick adds the frame time to the elapsed time and then
  throws on \<^verbatim>\<open>this.animation.tick\<close>.
\<close>

theorem empty_property_tick_advances_and_throws:
  "d_property example_data = [] \<and>
   map_option animation (instance_of unconfigured_entity ''animation'') = Some None \<and>
   step example_host ''animation'' (TickOp 16) unconfigured_entity = Done unconfigured_entity \<and>
   map_option time (instance_of unconfigured_entity_resumed ''animation'') = Some 0 \<and>
   threw (step example_host ''animation'' (TickOp 16) unconfigured_entity_resumed) \<and>
   map_option time
     (instance_of (run example_host ''animation'' [Pause, Play, TickOp 16] unconfigured_entity)
        ''animation'') = Some 16 \<and>
   map_option animation
     (instance_of (run example_host ''animation'' [Pause, Play, TickOp 16] unconfigured_entity)
        ''animation'') = Some None"
  by (simp add: unconfigured_entity_resumed_def unconfigured_entity_def method_defs scene_defs)

text \<open>
  C4 does not hold as the specification states it: the paths of a configuration are not
  validated. With no \<^verbatim>\<open>from\<close> the start value is read from the scene; \<^verbatim>\<open>getRawProperty\<close>
  walks from \<^verbatim>\<open>el.object3D\<close> to its \<^verbatim>\<open>material\<close>, which is \<^verbatim>\<open>undefined\<close>, and throws on
  the next segment. The update ends there, before an interpolation object is built.
\<close>

theorem update_throws_on_unreadable_property:
  "d_property missing_path_data \<noteq> [] \<and>
   getRawProperty example_entity (d_property missing_path_data) = Inl TypeError \<and>
   threw (update example_host (init ''animation'' missing_path_data, example_entity)) \<and>
   animation
     (fst (state_of (update example_host (init ''animation'' missing_path_data, example_entity)))) =
     None"
  by (simp add: missing_path_data_def method_defs scene_defs getRawProperty_def splitDot_def
      bindE_def)

text \<open>
  C4, amended. An \<^verbatim>\<open>update\<close> with a non-empty \<^verbatim>\<open>property\<close> that returns has built a new
  interpolation object from the configuration. If \<^verbatim>\<open>autoplay\<close> is off or a start event is
  declared, the object has received no call, the instance is not running, and nothing
  is emitted or armed. Otherwise, with \<^verbatim>\<open>delay\<close> 0 the instance has begun: the object has
  received \<^verbatim>\<open>seek(0)\<close> and nothing else, the instance is running and \<^verbatim>\<open>animationbegin\<close> is
  the last notification; with a positive \<^verbatim>\<open>delay\<close> the instance is not running, nothing is
  emitted and one timer for the instance is armed with the delay.
\<close>

theorem update_builds_then_idles_or_begins:
  assumes "d_property (data self) \<noteq> []"
    and "update h (self, el) = Done (self', el')"
  shows
    "(\<not> d_autoplay (data self) \<or> d_startEvents (data self) \<noteq> [] \<longrightarrow>
        animation self' = Some (new_anime (config self')) \<and> \<not> animationIsPlaying self' \<and>
        emitted el' = emitted el \<and> timers el' = timers el) \<and>
     (d_autoplay (data self) \<and> d_startEvents (data self) = [] \<and> d_delay (data self) = Fin 0 \<longrightarrow>
        (\<exists>a'. animation self' = Some a' \<and> a_calls a' = [Seek 0]) \<and>
        animationIsPlaying self' \<and> time self' = 0 \<and>
        (\<exists>pre. emitted el' = emitted el @ pre @ [(''animationbegin'', eventDetail self)]) \<and>
        timers el' = timers el) \<and>
     (\<forall>r. d_autoplay (data self) \<and> d_startEvents (data self) = [] \<and>
          d_delay (data self) = Fin r \<and> 0 < r \<longrightarrow>
        animation self' = Some (new_anime (config self')) \<and> \<not> animationIsPlaying self' \<and>
        emitted el' = emitted el \<and> timers el' = timers el @ [(attrName self, Fin r)])"
proof -
  define s0 where "s0 = self\<lparr>animationIsPlaying := False,
     config := (config self)
       (''autoplay'' \<mapsto> CVal (VBool False),
        ''direction'' \<mapsto> CVal (VStr (d_dir (data self))),
        ''duration'' \<mapsto> CVal (VNum (d_dur (data self))),
        ''easing'' \<mapsto> CVal (VStr (d_easing (data self))),
        ''elasticity'' \<mapsto> CVal (VNum (d_elasticity (data self))),
        ''loop'' \<mapsto> CVal (d_loop (data self)))\<rparr>"
  have cs: "createAndStartAnimation h (s0, el) = Done (self', el')"
    using assms by (simp add: update_def Let_def s0_def)
  obtain c where c: "updateConfig h s0 el = Done c"
    using cs by (cases "updateConfig h s0 el") (simp_all add: createAndStartAnimation_def)
  have "config_frame c = config_frame s0"
    using config_frame_updateConfig[of h s0 el] c by simp
  note keep = config_frameD[OF this]
  define s2 where
    "s2 = tween h (c\<lparr>animationIsPlaying := False, animation := Some (new_anime (config c))\<rparr>)"
  obtain L where L: "addEventListeners (removeEventListeners (s2, el)) = (s2, el\<lparr>listeners := L\<rparr>)"
    using rewire_listeners by blast
  have d2: "data s2 = data self" "attrName s2 = attrName self" "eventDetail s2 = eventDetail self"
    using keep by (simp_all add: s2_def s0_def tween_fields)
  have cs2: "(if \<not> d_autoplay (data self) \<or> d_startEvents (data self) \<noteq> []
              then Done (s2, el\<lparr>listeners := L\<rparr>)
              else if truthy (VNum (d_delay (data self)))
              then Done (arm_timer (s2, el\<lparr>listeners := L\<rparr>))
              else beginAnimation h (s2, el\<lparr>listeners := L\<rparr>)) = Done (self', el')"
  proof -
    have step: "createAndStartAnimation h (s0, el) =
        (let s3 = addEventListeners (removeEventListeners (s2, el))
         in if \<not> d_autoplay (data s2) \<or> d_startEvents (data s2) \<noteq> [] then Done s3
            else if truthy (VNum (d_delay (data s2))) then Done (arm_timer s3)
            else beginAnimation h s3)"
      unfolding createAndStartAnimation_def s2_def using c by (simp add: Let_def)
    show ?thesis using cs unfolding step Let_def L d2 .
  qed
  have idle: "animation self' = Some (new_anime (config self')) \<and> \<not> animationIsPlaying self' \<and>
        emitted el' = emitted el \<and> timers el' = timers el"
    if "\<not> d_autoplay (data self) \<or> d_startEvents (data self) \<noteq> []"
  proof -
    have "(self', el') = (s2, el\<lparr>listeners := L\<rparr>)" using cs2 that by auto
    then show ?thesis by (simp add: s2_def tween_fields)
  qed
  have armed: "animation self' = Some (new_anime (config self')) \<and> \<not> animationIsPlaying self' \<and>
        emitted el' = emitted el \<and> timers el' = timers el @ [(attrName self, Fin r)]"
    if "d_autoplay (data self)" "d_startEvents (data self) = []" "d_delay (data self) = Fin r" "0 < r"
    for r
  proof -
    have "(self', el') = arm_timer (s2, el\<lparr>listeners := L\<rparr>)" using cs2 that by simp
    then show ?thesis using d2 that by (simp add: arm_timer_def s2_def tween_fields)
  qed
  have begun: "(\<exists>a'. animation self' = Some a' \<and> a_calls a' = [Seek 0]) \<and>
        animationIsPlaying self' \<and> time self' = 0 \<and>
        (\<exists>pre. emitted el' = emitted el @ pre @ [(''animationbegin'', eventDetail self)]) \<and>
        timers el' = timers el"
    if "d_autoplay (data self)" "d_startEvents (data self) = []" "d_delay (data self) = Fin 0"
  proof -
    have b: "beginAnimation h (s2, el\<lparr>listeners := L\<rparr>) = Done (self', el')"
      using cs2 that by simp
    obtain c2 a mid where
      c2: "updateConfig h s2 (el\<lparr>listeners := L\<rparr>) = Done c2"
      and a: "animation s2 = Some a"
      and f: "engine_frame self' =
         engine_frame (c2\<lparr>time := 0, animation := Some (a\<lparr>a_calls := a_calls a @ [Seek 0]\<rparr>)\<rparr>)"
      and run: "animationIsPlaying self'"
      and comps: "components el' =
         (\<lambda>k. map_option (stopRelated s2 k) (components (el\<lparr>listeners := L\<rparr>) k))"
      and lis: "listeners el' = listeners (el\<lparr>listeners := L\<rparr>)"
      and tim: "timers el' = timers (el\<lparr>listeners := L\<rparr>)"
      and prp: "props el' = props (el\<lparr>listeners := L\<rparr>)"
      and em: "emitted el' = emitted (el\<lparr>listeners := L\<rparr>) @ mid @
                 [(''animationbegin'', eventDetail s2)]"
      and md: "set mid \<subseteq> {(''animationcomplete'', eventDetail s2)}"
      by (rule beginAnimation_Done[OF b])
    note e = engine_frameD[OF f]
    have "a = new_anime (config c)" using a by (simp add: s2_def tween_fields)
    then have ac: "a_calls a = []" by (simp add: new_anime_def)
    from e(9) obtain a' where "animation self' = Some a'" "a_calls a' = a_calls a @ [Seek 0]"
      by (cases "animation self'") auto
    then have 1: "\<exists>a'. animation self' = Some a' \<and> a_calls a' = [Seek 0]"
      using ac by simp
    have 2: "time self' = 0" using e(4) by simp
    have 3: "\<exists>pre. emitted el' = emitted el @ pre @ [(''animationbegin'', eventDetail self)]"
      using em d2 by auto
    show ?thesis using 1 2 3 run tim by simp
  qed
  show ?thesis using idle armed begun by blast
qed

theorem update_builds_then_idles_or_begins_witness:
  "d_property waiting_data \<noteq> [] \<and> d_startEvents waiting_data \<noteq> [] \<and>
   \<not> threw (update example_host (init ''animation'' waiting_data, example_entity)) \<and>
   \<not> animationIsPlaying
       (fst (state_of (update example_host (init ''animation'' waiting_data, example_entity)))) \<and>
   d_autoplay rival_b_data \<and> d_startEvents rival_b_data = [] \<and> d_delay rival_b_data = Fin 0 \<and>
   \<not> threw (update example_host (init ''animation'' rival_b_data, example_entity)) \<and>
   animationIsPlaying
     (fst (state_of (update example_host (init ''animation'' rival_b_data, example_entity)))) \<and>
   d_autoplay delayed_data \<and> d_startEvents delayed_data = [] \<and> d_delay delayed_data = Fin 250 \<and>
   \<not> threw (update example_host (init ''animation'' delayed_data, example_entity)) \<and>
   timers (snd (state_of (update example_host (init ''animation'' delayed_data, example_entity)))) =
     [(''animation'', Fin 250)]"
proof -
  let ?w = "update example_host (init ''animation'' waiting_data, example_entity)"
  let ?b = "update example_host (init ''animation'' rival_b_data, example_entity)"
  let ?d = "update example_host (init ''animation'' delayed_data, example_entity)"
  have w0: "d_property (data (init ''animation'' waiting_data)) \<noteq> []"
    and w1: "d_startEvents (data (init ''animation'' waiting_data)) \<noteq> []"
    by (simp_all add: init_def waiting_data_def example_data_def)
  have w2: "\<not> threw ?w"
    by (simp add: waiting_data_def method_defs scene_defs number_parsing)
  have b0: "d_property (data (init ''animation'' rival_b_data)) \<noteq> []"
    and b1: "d_autoplay (data (init ''animation'' rival_b_data)) \<and>
             d_startEvents (data (init ''animation'' rival_b_data)) = [] \<and>
             d_delay (data (init ''animation'' rival_b_data)) = Fin 0"
    by (simp_all add: init_def rival_b_data_def example_data_def)
  have b2: "\<not> threw ?b"
    by (simp add: rival_b_data_def method_defs scene_defs number_parsing)
  have d0: "d_property (data (init ''animation'' delayed_data)) \<noteq> []"
    and d1: "d_autoplay (data (init ''animation'' delayed_data)) \<and>
             d_startEvents (data (init ''animation'' delayed_data)) = [] \<and>
             d_delay (data (init ''animation'' delayed_data)) = Fin 250 \<and> (0::real) < 250"
    by (simp_all add: init_def delayed_data_def example_data_def)
  have d2: "\<not> threw ?d"
    by (simp add: delayed_data_def method_defs scene_defs number_parsing)
  have we: "?w = Done (fst (state_of ?w), snd (state_of ?w))"
    using not_threw_Done[OF w2] by simp
  have be: "?b = Done (fst (state_of ?b), snd (state_of ?b))"
    using not_threw_Done[OF b2] by simp
  have de: "?d = Done (fst (state_of ?d), snd (state_of ?d))"
    using not_threw_Done[OF d2] by simp
  have 1: "\<not> animationIsPlaying (fst (state_of ?w))"
    using update_builds_then_idles_or_begins[OF w0 we] w1 by blast
  have 2: "animationIsPlaying (fst (state_of ?b))"
    using update_builds_then_idles_or_begins[OF b0 be] b1 by blast
  have "timers (snd (state_of ?d)) =
          timers example_entity @ [(attrName (init ''animation'' delayed_data), Fin 250)]"
    using update_builds_then_idles_or_begins[OF d0 de] d1 by blast
  then have 3: "timers (snd (state_of ?d)) = [(''animation'', Fin 250)]"
    by (simp add: example_entity_def init_def)
  show ?thesis
    using w0 w1 w2 b0 b1 b2 d0 d1 d2 1 2 3 by (simp add: init_def)
qed




text \<open>
  C6 says that a configuration of the default route whose \<^verbatim>\<open>to\<close> is the text true or
  false gets the end values 1 or 0 and a callback that writes booleans, true from 1 on.
  Hiding a visible entity, \<^verbatim>\<open>to\<close> the text false and no \<^verbatim>\<open>from\<close>: the start value is the
  boolean of the scene, \<^verbatim>\<open>isNaN(true)\<close> is false, so both values go through \<^verbatim>\<open>parseFloat\<close>
  before the test for a boolean literal looks at \<^verbatim>\<open>to\<close>. The test fails on the \<^verbatim>\<open>NaN\<close>,
  both installed values are \<^verbatim>\<open>NaN\<close>, and the callback writes the number it is given.
  With \<^verbatim>\<open>from\<close> the text true the same configuration gets the values 1 and 0 and a
  callback that writes booleans.
\<close>

theorem boolean_to_is_lost_when_from_is_numeric:
  "updateConfig example_host (init ''animation'' hide_data) example_entity =
     updateConfigForDefault example_host (init ''animation'' hide_data) example_entity \<and>
   defaultFrom hide_data example_entity = Inr (VBool True) \<and>
   \<not> threw (updateConfig example_host (init ''animation'' hide_data) example_entity) \<and>
   targets (state_of (updateConfig example_host (init ''animation'' hide_data) example_entity)) =
     [(''aframeProperty'', VNum NaN)] \<and>
   config (state_of (updateConfig example_host (init ''animation'' hide_data) example_entity))
     ''aframeProperty'' = Some (CVal (VNum NaN)) \<and>
   config (state_of (updateConfig example_host (init ''animation'' hide_data) example_entity))
     ''update'' = Some (CUpdate (UpdDefault hide_data (VNum NaN) False)) \<and>
   run_update (UpdDefault hide_data (VNum NaN) False)
     (VObj [(''aframeProperty'', VNum (Fin 0))]) VUndefined example_entity =
     Done (UpdDefault hide_data (VNum (Fin 0)) False,
           example_entity\<lparr>writes := [SetComponentProperty ''visible'' (VNum (Fin 0))]\<rparr>) \<and>
   targets (state_of (updateConfig example_host (init ''animation'' hide_explicit_data) example_entity)) =
     [(''aframeProperty'', VNum (Fin 1))] \<and>
   config (state_of (updateConfig example_host (init ''animation'' hide_explicit_data) example_entity))
     ''aframeProperty'' = Some (CVal (VNum (Fin 0))) \<and>
   config (state_of (updateConfig example_host (init ''animation'' hide_explicit_data) example_entity))
     ''update'' = Some (CUpdate (UpdDefault hide_explicit_data (VNum (Fin 1)) True)) \<and>
   run_update (UpdDefault hide_explicit_data (VNum (Fin 1)) True)
     (VObj [(''aframeProperty'', VNum (Fin 0))]) VUndefined example_entity =
     Done (UpdDefault hide_explicit_data (VNum (Fin 0)) True,
           example_entity\<lparr>writes := [SetComponentProperty ''visible'' (VBool False)]\<rparr>)"
  by (simp add: hide_data_def hide_explicit_data_def method_defs scene_defs number_parsing
      js_ge_def)

text \<open>
  C7 says that an entity pause stops the instance and detaches its listeners, and that
  the play attaches them again and sets the instance running only if it was running at
  the pause. The animation that waits for a click is not running when the entity is
  paused. The pause detaches its two listeners and the play attaches them again, but
  after the play the instance is running: \<^verbatim>\<open>pause\<close> records \<^verbatim>\<open>pausedWasPlaying = true\<close>
  whatever the running flag was, so \<^verbatim>\<open>play\<close> always resumes.
\<close>

theorem idle_instance_runs_after_entity_play:
  "\<not> threw (attach example_host ''animation'' waiting_data example_entity) \<and>
   map_option animationIsPlaying (instance_of waiting_entity ''animation'') = Some False \<and>
   listeners waiting_entity =
     {(''click'', ''animation'', OnStartEvent), (''hold'', ''animation'', PauseAnimation)} \<and>
   listeners (run example_host ''animation'' [Pause] waiting_entity) = {} \<and>
   map_option animationIsPlaying
     (instance_of (run example_host ''animation'' [Pause] waiting_entity) ''animation'') =
     Some False \<and>
   waiting_entity_resumed = run example_host ''animation'' [Pause, Play] waiting_entity \<and>
   listeners waiting_entity_resumed = listeners waiting_entity \<and>
   map_option animationIsPlaying (instance_of waiting_entity_resumed ''animation'') = Some True"
  by (auto simp add: waiting_entity_resumed_def waiting_entity_def waiting_data_def method_defs
      scene_defs number_parsing)

text \<open>
  C8 does not hold as the specification states it: with \<^verbatim>\<open>from\<close> the text 0 and \<^verbatim>\<open>to\<close>
  the text abc the configuration takes the default route, the numeric test looks at
  \<^verbatim>\<open>from\<close> only, and the end value is installed as the \<^verbatim>\<open>NaN\<close> of the failed parse.
\<close>

theorem non_numeric_to_is_installed_as_NaN:
  "isNaN (VStr (d_to mixed_data)) \<and>
   updateConfig example_host (init ''animation'' mixed_data) example_entity =
     updateConfigForDefault example_host (init ''animation'' mixed_data) example_entity \<and>
   \<not> threw (updateConfig example_host (init ''animation'' mixed_data) example_entity) \<and>
   config (state_of (updateConfig example_host (init ''animation'' mixed_data) example_entity))
     ''aframeProperty'' = Some (CVal (VNum NaN)) \<and>
   targets (state_of (updateConfig example_host (init ''animation'' mixed_data) example_entity)) =
     [(''aframeProperty'', VNum (Fin 0))]"
  by (simp add: mixed_data_def method_defs scene_defs number_parsing)

text \<open>
  C8, amended, for a \<^verbatim>\<open>to\<close> that is not a boolean literal. The default route decides
  between numbers and strings by one test: \<^verbatim>\<open>isNaN\<close> of the start value if that is truthy,
  of the \<^verbatim>\<open>to\<close> text otherwise. If the tested value is not numeric, the end value is
  installed as the \<^verbatim>\<open>to\<close> text and a truthy start value as its string form (a falsy one
  as it is): no \<^verbatim>\<open>NaN\<close> of a failed parse is installed. If the tested value is numeric,
  both values are installed as what \<^verbatim>\<open>parseFloat\<close> makes of them, which for a value that
  is not numeric is \<^verbatim>\<open>NaN\<close>. The start value is installed in \<^verbatim>\<open>this.targets\<close>, which is the
  target of the configuration.
\<close>

theorem default_endpoints_follow_one_numeric_test:
  assumes "defaultFrom (data self) el = Inr from0"
    and "d_to (data self) \<noteq> ''true''" and "d_to (data self) \<noteq> ''false''"
  shows "\<exists>self'. updateConfigForDefault h self el = Done self' \<and>
    config self' ''targets'' = Some CTargets \<and>
    (isNaN (js_or from0 (VStr (d_to (data self)))) \<longrightarrow>
       fieldOf (targets self') ''aframeProperty'' =
         (if truthy from0 then VStr (toString (numberToString h) from0) else from0) \<and>
       config self' ''aframeProperty'' = Some (CVal (VStr (d_to (data self))))) \<and>
    (\<not> isNaN (js_or from0 (VStr (d_to (data self)))) \<longrightarrow>
       fieldOf (targets self') ''aframeProperty'' = VNum (parseFloat from0) \<and>
       config self' ''aframeProperty'' = Some (CVal (VNum (parseFloat (VStr (d_to (data self)))))))"
  using assms
  by (simp add: updateConfigForDefault_def Let_def fieldOf_setField)

theorem default_endpoints_follow_one_numeric_test_witness:
  "defaultFrom (data (init ''animation'' words_data)) example_entity = Inr (VStr ''red'') \<and>
   isNaN (js_or (VStr ''red'') (VStr (d_to (data (init ''animation'' words_data))))) \<and>
   d_to (data (init ''animation'' words_data)) \<noteq> ''true'' \<and>
   d_to (data (init ''animation'' words_data)) \<noteq> ''false'' \<and>
   defaultFrom (data (init ''animation'' numbers_data)) example_entity = Inr (VStr ''0'') \<and>
   \<not> isNaN (js_or (VStr ''0'') (VStr (d_to (data (init ''animation'' numbers_data))))) \<and>
   d_to (data (init ''animation'' numbers_data)) \<noteq> ''true'' \<and>
   d_to (data (init ''animation'' numbers_data)) \<noteq> ''false'' \<and>
   (\<exists>w n. updateConfigForDefault example_host (init ''animation'' words_data) example_entity = Done w \<and>
      fieldOf (targets w) ''aframeProperty'' = VStr ''red'' \<and>
      config w ''aframeProperty'' = Some (CVal (VStr ''blue'')) \<and>
      updateConfigForDefault example_host (init ''animation'' numbers_data) example_entity = Done n \<and>
      fieldOf (targets n) ''aframeProperty'' = VNum (Fin 0) \<and>
      config n ''aframeProperty'' = Some (CVal (VNum (Fin 10))))"
proof -
  have w0: "defaultFrom (data (init ''animation'' words_data)) example_entity = Inr (VStr ''red'')"
    by (simp add: defaultFrom_def init_def words_data_def example_data_def)
  have w1: "isNaN (js_or (VStr ''red'') (VStr (d_to (data (init ''animation'' words_data)))))"
    and w2: "d_to (data (init ''animation'' words_data)) \<noteq> ''true''"
    and w3: "d_to (data (init ''animation'' words_data)) \<noteq> ''false''"
    and w4: "d_to (data (init ''animation'' words_data)) = ''blue''"
    by (simp_all add: js_or_def init_def words_data_def example_data_def number_parsing)
  have n0: "defaultFrom (data (init ''animation'' numbers_data)) example_entity = Inr (VStr ''0'')"
    by (simp add: defaultFrom_def init_def numbers_data_def example_data_def)
  have n1: "\<not> isNaN (js_or (VStr ''0'') (VStr (d_to (data (init ''animation'' numbers_data)))))"
    by (simp add: js_or_def init_def numbers_data_def example_data_def number_parsing)
  have n3: "d_to (data (init ''animation'' numbers_data)) \<noteq> ''true''"
    and n4: "d_to (data (init ''animation'' numbers_data)) \<noteq> ''false''"
    by (simp_all add: init_def numbers_data_def example_data_def)
  have n2: "parseFloat (VStr ''0'') = Fin 0"
    "parseFloat (VStr (d_to (data (init ''animation'' numbers_data)))) = Fin 10"
    by (simp_all add: init_def numbers_data_def example_data_def number_parsing)
  from default_endpoints_follow_one_numeric_test[OF w0 w2 w3, of example_host] w1
  obtain w where w: "updateConfigForDefault example_host (init ''animation'' words_data) example_entity = Done w"
    "fieldOf (targets w) ''aframeProperty'' =
       (if truthy (VStr ''red'') then VStr (toString (numberToString example_host) (VStr ''red''))
        else VStr ''red'')"
    "config w ''aframeProperty'' = Some (CVal (VStr (d_to (data (init ''animation'' words_data)))))"
    by blast
  from default_endpoints_follow_one_numeric_test[OF n0 n3 n4, of example_host] n1
  obtain n where n: "updateConfigForDefault example_host (init ''animation'' numbers_data) example_entity = Done n"
    "fieldOf (targets n) ''aframeProperty'' = VNum (parseFloat (VStr ''0''))"
    "config n ''aframeProperty'' =
       Some (CVal (VNum (parseFloat (VStr (d_to (data (init ''animation'' numbers_data)))))))"
    by blast
  have "fieldOf (targets w) ''aframeProperty'' = VStr ''red''"
    using w(2) by simp
  moreover have "config w ''aframeProperty'' = Some (CVal (VStr ''blue''))"
    using w(3) by (simp only: w4)
  moreover have "fieldOf (targets n) ''aframeProperty'' = VNum (Fin 0)"
    using n(2) by (simp only: n2)
  moreover have "config n ''aframeProperty'' = Some (CVal (VNum (Fin 10)))"
    using n(3) by (simp only: n2)
  ultimately show ?thesis using w0 w1 w2 w3 n0 n1 n3 n4 w(1) n(1) by blast
qed

text \<open>
  C9. A configuration whose property is \<^verbatim>\<open>rotation\<close>, whose schema type is a vector and
  which is not routed as a raw colour takes the vector route. When its start value is an
  object, the object stored as the target of the interpolation has \<^verbatim>\<open>x\<close>, \<^verbatim>\<open>y\<close> and \<^verbatim>\<open>z\<close>
  multiplied by \<open>\<pi>/180\<close> and its other fields as they were, the end values stored under
  \<^verbatim>\<open>x\<close>, \<^verbatim>\<open>y\<close> and \<^verbatim>\<open>z\<close> of the configuration are the parsed \<^verbatim>\<open>to\<close> values multiplied by
  \<open>\<pi>/180\<close>, and the installed callback is the one that writes into the transform node.
  That callback, when the value differs from the last one, passes the three interpolated
  components to \<^verbatim>\<open>el.object3D[property].set\<close> as they are. Half a turn, 180, becomes \<open>\<pi>\<close>.
\<close>

theorem rotation_endpoints_are_converted_to_radians:
  assumes "d_property (data self) = ''rotation''"
    and "\<not> (d_isRawProperty (data self) \<and> d_type (data self) = ''color'')"
    and "getPropertyType h el ''rotation'' \<in>
           {Inr (VStr ''vec2''), Inr (VStr ''vec3''), Inr (VStr ''vec4'')}"
    and "vectorFrom h (data self) el = Inr (VObj ffs)"
  shows "\<exists>self' rfs.
    updateConfig h self el = Done self' \<and>
    targetsArray self' = [VObj rfs] \<and>
    (\<forall>k. fieldOf rfs k =
       (if k \<in> {''x'', ''y'', ''z''} then VNum (degToRad (fieldOf ffs k)) else fieldOf ffs k)) \<and>
    (\<forall>k \<in> {''x'', ''y'', ''z''}.
       config self' k =
         Some (CVal (VNum (degToRad (fieldOf (coordinates_parse h (d_to (data self))) k))))) \<and>
    config self' ''update'' =
      Some (CUpdate (UpdObject3D (data self) (VNum (degToRad (fieldOf ffs ''x'')))
              (VNum (degToRad (fieldOf ffs ''y''))) (VNum (degToRad (fieldOf ffs ''z''))))) \<and>
    (\<forall>d lx ly lz vx vy vz animated el0.
       \<not> same3 vx vy vz lx ly lz \<longrightarrow>
       run_update (UpdObject3D d lx ly lz) (VObj [(''x'', vx), (''y'', vy), (''z'', vz)]) animated el0 =
         Done (UpdObject3D d vx vy vz,
               el0\<lparr>writes := writes el0 @ [Object3DSet (d_property d) vx vy vz]\<rparr>)) \<and>
    degToRad (VNum (Fin 180)) = Fin pi"
proof -
  let ?tfs = "coordinates_parse h (d_to (data self))"
  let ?rad = "\<lambda>fs. setField (setField (setField fs ''x'' (VNum (degToRad (fieldOf fs ''x''))))
                          ''y'' (VNum (degToRad (fieldOf fs ''y''))))
                ''z'' (VNum (degToRad (fieldOf fs ''z'')))"
  have raw: "\<not> (isRawProperty (data self) \<and> d_type (data self) = TYPE_COLOR)"
    using assms(1,2) by (simp add: isRawProperty_def startsWith_def)
  obtain t where t: "getPropertyType h el (d_property (data self)) = Inr t"
    and vec: "strict_eq t (VStr ''vec2'') \<or> strict_eq t (VStr ''vec3'') \<or>
              strict_eq t (VStr ''vec4'')"
    using assms(1,3) by auto
  have route: "updateConfig h self el = updateConfigForVector h self el"
    using raw vec by (auto simp add: updateConfig_def t)
  define self' where "self' = self\<lparr>targetsArray := [VObj (?rad ffs)],
      config := (assignAll ((config self)(''targets'' \<mapsto> CTargetsArray)) (?rad ?tfs))
        (''update'' \<mapsto> CUpdate (UpdObject3D (data self) (VNum (degToRad (fieldOf ffs ''x'')))
              (VNum (degToRad (fieldOf ffs ''y''))) (VNum (degToRad (fieldOf ffs ''z'')))))\<rparr>"
  have res: "updateConfigForVector h self el = Done self'"
    using assms(1,4)
    by (simp add: updateConfigForVector_def Let_def bindE_def toRadians_object map_of_setField
        self'_def)
  have 1: "targetsArray self' = [VObj (?rad ffs)]" by (simp add: self'_def)
  have 2: "\<forall>k. fieldOf (?rad ffs) k =
       (if k \<in> {''x'', ''y'', ''z''} then VNum (degToRad (fieldOf ffs k)) else fieldOf ffs k)"
    by (simp add: fieldOf_setField)
  have 3: "\<forall>k \<in> {''x'', ''y'', ''z''}.
       config self' k = Some (CVal (VNum (degToRad (fieldOf ?tfs k))))"
    by (simp add: self'_def assignAll_apply map_of_setField)
  have 4: "config self' ''update'' =
      Some (CUpdate (UpdObject3D (data self) (VNum (degToRad (fieldOf ffs ''x'')))
              (VNum (degToRad (fieldOf ffs ''y''))) (VNum (degToRad (fieldOf ffs ''z'')))))"
    by (simp add: self'_def)
  have 5: "\<forall>d lx ly lz vx vy vz animated el0.
       \<not> same3 vx vy vz lx ly lz \<longrightarrow>
       run_update (UpdObject3D d lx ly lz) (VObj [(''x'', vx), (''y'', vy), (''z'', vz)]) animated el0 =
         Done (UpdObject3D d vx vy vz,
               el0\<lparr>writes := writes el0 @ [Object3DSet (d_property d) vx vy vz]\<rparr>)"
    by (simp add: bindE_def)
  have 6: "degToRad (VNum (Fin 180)) = Fin pi"
    by (simp add: degToRad_def DEG2RAD_def js_mul_def)
  show ?thesis
    apply (rule exI[of _ self'], rule exI[of _ "?rad ffs"])
    using route res 1 2 3 4 5 6 by simp
qed

theorem rotation_endpoints_are_converted_to_radians_witness:
  "d_property (data (init ''animation'' turn_data)) = ''rotation'' \<and>
   \<not> (d_isRawProperty (data (init ''animation'' turn_data)) \<and>
       d_type (data (init ''animation'' turn_data)) = ''color'') \<and>
   getPropertyType example_host example_entity ''rotation'' \<in>
     {Inr (VStr ''vec2''), Inr (VStr ''vec3''), Inr (VStr ''vec4'')} \<and>
   vectorFrom example_host (data (init ''animation'' turn_data)) example_entity =
     Inr (VObj [(''x'', VNum (Fin 0)), (''y'', VNum (Fin 0)), (''z'', VNum (Fin 0))]) \<and>
   (\<exists>c. updateConfig example_host (init ''animation'' turn_data) example_entity = Done c \<and>
        config c ''x'' = Some (CVal (VNum (Fin pi))) \<and>
        config c ''y'' = Some (CVal (VNum (Fin 0))))"
proof -
  have h1: "d_property (data (init ''animation'' turn_data)) = ''rotation''"
    and h2: "\<not> (d_isRawProperty (data (init ''animation'' turn_data)) \<and>
                 d_type (data (init ''animation'' turn_data)) = ''color'')"
    and to: "d_to (data (init ''animation'' turn_data)) = ''180 0 0''"
    by (simp_all add: init_def turn_data_def example_data_def)
  have h3: "getPropertyType example_host example_entity ''rotation'' \<in>
              {Inr (VStr ''vec2''), Inr (VStr ''vec3''), Inr (VStr ''vec4'')}"
    by (simp add: getPropertyType_def example_entity_def fieldOf_def)
  have h4: "vectorFrom example_host (data (init ''animation'' turn_data)) example_entity =
     Inr (VObj [(''x'', VNum (Fin 0)), (''y'', VNum (Fin 0)), (''z'', VNum (Fin 0))])"
    by (simp add: vectorFrom_def init_def turn_data_def example_data_def example_host_def
        example_parse_def)
  have p: "coordinates_parse example_host ''180 0 0'' =
             [(''x'', VNum (Fin 180)), (''y'', VNum (Fin 0)), (''z'', VNum (Fin 0))]"
    by (simp add: example_host_def example_parse_def)
  have r: "degToRad (VNum (Fin 180)) = Fin pi" "degToRad (VNum (Fin 0)) = Fin 0"
    by (simp_all add: degToRad_def DEG2RAD_def js_mul_def)
  from rotation_endpoints_are_converted_to_radians[OF h1 h2 h3 h4]
  obtain c where c: "updateConfig example_host (init ''animation'' turn_data) example_entity = Done c"
    "\<forall>k \<in> {''x'', ''y'', ''z''}. config c k =
       Some (CVal (VNum (degToRad (fieldOf (coordinates_parse example_host
          (d_to (data (init ''animation'' turn_data)))) k))))"
    by blast
  have "config c ''x'' = Some (CVal (VNum (Fin pi)))"
    using c(2) by (simp add: to p fieldOf_def r)
  moreover have "config c ''y'' = Some (CVal (VNum (Fin 0)))"
    using c(2) by (simp add: to p fieldOf_def r)
  ultimately show ?thesis using h1 h2 h3 h4 c(1) by blast
qed

text \<open>
  C10 says that in every state the lifecycle reaches a running instance has an
  interpolation object. The state reached by attaching an animation with an empty
  \<^verbatim>\<open>property\<close> (\<^verbatim>\<open>init\<close> and \<^verbatim>\<open>update\<close>), an entity pause and an entity play, none of which
  throws, has the running flag set and no interpolation object; the tick in that state
  dereferences \<^verbatim>\<open>null\<close>. (An instance that has got its interpolation object keeps one,
  \<open>run_keeps_object\<close>: only an instance that never had one can be in such a state.)
\<close>

theorem running_without_interpolation_object:
  "unconfigured_entity_resumed =
     run example_host ''animation'' [Pause, Play]
       (state_of (attach example_host ''animation'' example_data example_entity)) \<and>
   \<not> threw (attach example_host ''animation'' example_data example_entity) \<and>
   \<not> threw (step example_host ''animation'' Pause unconfigured_entity) \<and>
   \<not> threw (step example_host ''animation'' Play
              (run example_host ''animation'' [Pause] unconfigured_entity)) \<and>
   map_option animationIsPlaying (instance_of unconfigured_entity_resumed ''animation'') = Some True \<and>
   map_option animation (instance_of unconfigured_entity_resumed ''animation'') = Some None \<and>
   step example_host ''animation'' (TickOp 16) unconfigured_entity_resumed =
     Thrown TypeError (run example_host ''animation'' [TickOp 16] unconfigured_entity_resumed)"
  by (simp add: unconfigured_entity_resumed_def unconfigured_entity_def method_defs scene_defs)

end
